theory Spec2Isabelle
  imports Complex_Main "HOL-Library.Sublist"
begin

section \<open>Python strings\<close>

text \<open>
  Text is modelled by \<^typ>\<open>string\<close>: a list of characters with code points below 256
  (Latin-1), of which \<open>len\<close> counts one per character as Python does.  The string methods
  the repository calls are written out for that range.
\<close>

definition isupper :: "char \<Rightarrow> bool" where
  \<comment> \<open>the code points below 256 that \<open>str.lower\<close> changes: A-Z and the accented capitals
      U+00C0..U+00DE without the multiplication sign U+00D7\<close>
  "isupper c =
     (let n = (of_char c :: nat)
      in (65 \<le> n \<and> n \<le> 90) \<or> (192 \<le> n \<and> n \<le> 222 \<and> n \<noteq> 215))"

definition lower_char :: "char \<Rightarrow> char" where
  \<comment> \<open>the lower-case letter is 32 code points up: bit 5 is set\<close>
  "lower_char c =
     (if isupper c
      then Char (digit0 c) (digit1 c) (digit2 c) (digit3 c) (digit4 c) True (digit6 c) (digit7 c)
      else c)"

definition lower :: "string \<Rightarrow> string" where
  \<comment> \<open>\<open>s.lower()\<close>\<close>
  "lower s = map lower_char s"

definition isspace :: "char \<Rightarrow> bool" where
  \<comment> \<open>the whitespace of \<open>str.split()\<close> and \<open>str.strip()\<close> below code point 256\<close>
  "isspace c =
     (let n = (of_char c :: nat)
      in (9 \<le> n \<and> n \<le> 13) \<or> (28 \<le> n \<and> n \<le> 32) \<or> n = 133 \<or> n = 160)"

fun split_from :: "string \<Rightarrow> string \<Rightarrow> string list" where
  "split_from cur [] = (if cur = [] then [] else [cur])"
| "split_from cur (c # cs) =
     (if isspace c then (if cur = [] then split_from [] cs else cur # split_from [] cs)
      else split_from (cur @ [c]) cs)"

definition split :: "string \<Rightarrow> string list" where
  \<comment> \<open>\<open>s.split()\<close>: the maximal runs of non-whitespace characters\<close>
  "split s = split_from [] s"

definition strip :: "string \<Rightarrow> string" where
  \<comment> \<open>\<open>s.strip()\<close>\<close>
  "strip s = rev (dropWhile isspace (rev (dropWhile isspace s)))"

fun str_in :: "string \<Rightarrow> string \<Rightarrow> bool" where
  \<comment> \<open>\<open>xs in ys\<close> on strings: \<open>xs\<close> occurs in \<open>ys\<close> as a contiguous substring\<close>
  "str_in xs [] = (xs = [])"
| "str_in xs (y # ys) = (prefix xs (y # ys) \<or> str_in xs ys)"

definition replace_empty :: "char \<Rightarrow> string \<Rightarrow> string" where
  \<comment> \<open>\<open>s.replace(c, "")\<close> for a one-character \<open>c\<close>\<close>
  "replace_empty c s = filter (\<lambda>x. x \<noteq> c) s"

fun split_sep1_from :: "string \<Rightarrow> string \<Rightarrow> string \<Rightarrow> string list" where
  "split_sep1_from sep cur [] = [cur]"
| "split_sep1_from sep cur (c # cs) =
     (if prefix sep (c # cs) then [cur, drop (length sep) (c # cs)]
      else split_sep1_from sep (cur @ [c]) cs)"

definition split_sep1 :: "string \<Rightarrow> string \<Rightarrow> string list" where
  \<comment> \<open>\<open>s.split(sep, 1)\<close> for a non-empty separator: cut at the first occurrence\<close>
  "split_sep1 sep s = split_sep1_from sep [] s"

definition quoted :: "string \<Rightarrow> string" where
  \<comment> \<open>\<open>'{s}'\<close> inside an f-string\<close>
  "quoted s = [CHR 0x27] @ s @ [CHR 0x27]"

definition round2 :: "real \<Rightarrow> real" where
  \<comment> \<open>\<open>round(x, 2)\<close> on the exact value: to the nearest hundredth, ties to the even one.
      On a float whose decimal tie is not a binary fraction Python may report the other
      neighbour; only reported scores depend on it, no decision does.\<close>
  "round2 x =
     (let y = x * 100; f = \<lfloor>y\<rfloor>; d = y - of_int f
      in of_int (if d < 1 / 2 then f else if 1 / 2 < d then f + 1
                 else if even f then f else f + 1) / 100)"

section \<open>The verification heuristic (main.py)\<close>

text \<open>
  The captioning model, the OCR model and the image library are collaborators outside the
  repository.  Each call either returns or raises; a raised exception is represented by its
  text \<open>str(e)\<close>.  Ratios and confidence values are Python floats; they are modelled in exact
  real arithmetic, which agrees with the floating-point comparison against \<open>0.6\<close> for every
  token count a request can carry.
\<close>

type_synonym exn = string

record ocr_data =
  full_text :: string
  confidence_scores :: "real list"

record ('b, 'i) externals =
  preprocess_image :: "'b \<Rightarrow> exn + 'i"
  generate_caption :: "'i \<Rightarrow> string \<Rightarrow> exn + string"
  extract_text :: "'i \<Rightarrow> exn + ocr_data"

subsection \<open>College ID cards\<close>

definition id_caption_prompt :: string where
  "id_caption_prompt =
     ''Question: Is this a college ID card or student identification card? Answer:''"

definition id_not_valid_msg :: string where
  "id_not_valid_msg = ''The uploaded image does not appear to be a valid college ID card''"

definition id_no_text_msg :: string where
  "id_no_text_msg =
     ''Could not extract any text from the ID card. Please upload a clearer image''"

definition id_name_msg :: "string \<Rightarrow> string" where
  "id_name_msg student_name =
     ''Student name '' @ quoted student_name @
     '' does not match the name on the ID card. Please ensure the name matches your registration.''"

definition id_roll_msg :: "string \<Rightarrow> string" where
  "id_roll_msg roll_no =
     ''Roll number '' @ quoted roll_no @
     '' does not match the ID on the card. Please verify your roll number and try again.''"

definition verify_college_id_try ::
  "('b, 'i) externals \<Rightarrow> 'b \<Rightarrow> string \<Rightarrow> string \<Rightarrow> exn + (bool \<times> string \<times> string)" where
  \<comment> \<open>the body of the \<open>try\<close> block of \<open>verify_college_id_with_models\<close>\<close>
  "verify_college_id_try ext image_bytes student_name roll_no =
     (case preprocess_image ext image_bytes of Inl e \<Rightarrow> Inl e | Inr img \<Rightarrow>
      case generate_caption ext img id_caption_prompt of Inl e \<Rightarrow> Inl e | Inr caption \<Rightarrow>
        let caption_lower = lower caption;
            is_id_card = list_ex (\<lambda>keyword. str_in keyword caption_lower)
                           [''yes'', ''id'', ''student'']
        in if \<not> is_id_card then Inr (False, id_not_valid_msg, '''')
           else
            case extract_text ext img of Inl e \<Rightarrow> Inl e | Inr ocr \<Rightarrow>
              let extracted_text = lower (full_text ocr)
              in if extracted_text = [] then Inr (False, id_no_text_msg, '''')
                 else
                  let student_name_lower = lower student_name;
                      name_parts = split student_name_lower;
                      matched_parts =
                        length (filter (\<lambda>part. 2 < length part \<and> str_in part extracted_text)
                                  name_parts);
                      name_match_ratio =
                        (if name_parts \<noteq> []
                         then real matched_parts / real (length name_parts) else 0)
                  in if name_match_ratio < 0.6 then Inr (False, id_name_msg student_name, '''')
                     else
                      let roll_no_clean =
                            replace_empty CHR ''_'' (replace_empty CHR ''-''
                              (replace_empty CHR '' '' (lower roll_no)));
                          extracted_clean =
                            replace_empty CHR ''_'' (replace_empty CHR ''-''
                              (replace_empty CHR '' '' extracted_text));
                          verified =
                            Inr (True, ''College ID verified successfully'',
                                 strip (full_text ocr))
                      in if \<not> str_in roll_no_clean extracted_clean
                         then
                          let matched_chars =
                                length (filter (\<lambda>char. str_in [char] extracted_clean)
                                          roll_no_clean);
                              roll_match_ratio =
                                (if roll_no_clean \<noteq> []
                                 then real matched_chars / real (length roll_no_clean) else 0)
                          in if roll_match_ratio < 0.6
                             then Inr (False, id_roll_msg roll_no, '''')
                             else verified
                         else verified)"

definition verify_college_id_with_models ::
  "('b, 'i) externals \<Rightarrow> 'b \<Rightarrow> string \<Rightarrow> string \<Rightarrow> bool \<times> string \<times> string" where
  \<comment> \<open>\<open>except Exception as e\<close>: the exception becomes a rejection\<close>
  "verify_college_id_with_models ext image_bytes student_name roll_no =
     (case verify_college_id_try ext image_bytes student_name roll_no of
        Inl e \<Rightarrow> (False, ''Error processing college ID: '' @ e, '''')
      | Inr result \<Rightarrow> result)"

subsection \<open>Certificates\<close>

record scores =
  overall_confidence :: real
  image_type_match :: real
  student_name_match :: real
  institution_match :: real
  skill_match :: real
  ocr_confidence :: real

definition zero_scores :: scores where
  "zero_scores =
     \<lparr>overall_confidence = 0, image_type_match = 0, student_name_match = 0,
      institution_match = 0, skill_match = 0, ocr_confidence = 0\<rparr>"

definition cert_caption_prompt :: string where
  "cert_caption_prompt =
     ''Question: Is this a certificate, award, or achievement document? Answer:''"

definition cert_not_valid_msg :: string where
  "cert_not_valid_msg = ''The uploaded image does not appear to be a valid certificate''"

definition cert_no_text_msg :: string where
  "cert_no_text_msg =
     ''Could not extract any text from the certificate. Please upload a clearer image''"

definition cert_name_msg :: "string \<Rightarrow> string" where
  "cert_name_msg student_name =
     ''Student name '' @ quoted student_name @ '' does not match the name on the certificate''"

definition cert_institution_msg :: "string \<Rightarrow> string" where
  "cert_institution_msg institution_name =
     ''Institution name '' @ quoted institution_name @
     '' does not match the certificate content''"

definition cert_skill_msg :: "string \<Rightarrow> string" where
  "cert_skill_msg expected_skill =
     ''Skill/Achievement '' @ quoted expected_skill @
     '' does not match the certificate content''"

text \<open>
  \<open>verify_certificate_with_ai\<close> is one function of seven commented steps with an early return
  in most of them.  The steps after the OCR call are given here one definition each, the
  last first; every one receives the local variables that are live at its entry.
\<close>

definition certificate_step7 :: "scores \<Rightarrow> string \<Rightarrow> string \<Rightarrow> bool \<times> string \<times> scores" where
  \<comment> \<open>Step 7: the words of the skill or achievement, then the overall confidence\<close>
  "certificate_step7 cs extracted_text expected_skill =
     (let skill_words = filter (\<lambda>w. 2 < length w) (split expected_skill);
          weighted = (\<lambda>c. round2
            (image_type_match c * 0.2 + student_name_match c * 0.2 +
             institution_match c * 0.15 + skill_match c * 0.2 + ocr_confidence c * 0.25))
      in if skill_words \<noteq> []
         then
          let matched_skill_words =
                length (filter (\<lambda>word. str_in word extracted_text) skill_words);
              skill_match_ratio = real matched_skill_words / real (length skill_words);
              cs1 = cs\<lparr>skill_match := round2 skill_match_ratio\<rparr>
          in if skill_match_ratio < 0.6
             then (False, cert_skill_msg expected_skill,
                   cs1\<lparr>overall_confidence := weighted cs1\<rparr>)
             else (True, ''Certificate verified successfully'',
                   cs1\<lparr>overall_confidence := weighted cs1\<rparr>)
         else
          let cs1 = cs\<lparr>skill_match := 1\<rparr>
          in (True, ''Certificate verified successfully'',
              cs1\<lparr>overall_confidence := weighted cs1\<rparr>))"

definition certificate_step6 ::
  "scores \<Rightarrow> string \<Rightarrow> string option \<Rightarrow> string \<Rightarrow> bool \<times> string \<times> scores" where
  \<comment> \<open>Step 6: the words of the institution name, when the description gave one\<close>
  "certificate_step6 cs extracted_text institution_name expected_skill =
     (case institution_name of
        None \<Rightarrow> certificate_step7 (cs\<lparr>institution_match := 1\<rparr>) extracted_text expected_skill
      | Some inst \<Rightarrow>
          if inst = []
          then certificate_step7 (cs\<lparr>institution_match := 1\<rparr>) extracted_text expected_skill
          else
           let institution_words = filter (\<lambda>w. 2 < length w) (split inst)
           in if institution_words \<noteq> []
              then
               let matched_inst_words =
                     length (filter (\<lambda>word. str_in word extracted_text) institution_words);
                   inst_match_ratio =
                     real matched_inst_words / real (length institution_words);
                   cs1 = cs\<lparr>institution_match := round2 inst_match_ratio\<rparr>
               in if inst_match_ratio < 0.6
                  then (False, cert_institution_msg inst,
                        cs1\<lparr>overall_confidence := round2
                          (image_type_match cs1 * 0.2 + student_name_match cs1 * 0.2 +
                           institution_match cs1 * 0.2 + ocr_confidence cs1 * 0.4)\<rparr>)
                  else certificate_step7 cs1 extracted_text expected_skill
              else certificate_step7 (cs\<lparr>institution_match := 1\<rparr>) extracted_text
                     expected_skill)"

definition certificate_step5 ::
  "scores \<Rightarrow> string \<Rightarrow> string \<Rightarrow> string option \<Rightarrow> exn + (bool \<times> string \<times> scores)" where
  \<comment> \<open>Step 5: a description \<open>Institution - Skill\<close> overrides the expected skill\<close>
  "certificate_step5 cs extracted_text skill_or_achievement description =
     (case description of
        None \<Rightarrow> Inr (certificate_step6 cs extracted_text None (lower skill_or_achievement))
      | Some d \<Rightarrow>
          if d \<noteq> [] \<and> str_in '' - '' d
          then
           (case split_sep1 '' - '' d of
              p0 # p1 # _ \<Rightarrow>
                Inr (certificate_step6 cs extracted_text (Some (lower (strip p0)))
                       (lower (strip p1)))
            | _ \<Rightarrow> Inl ''list index out of range'')
          else Inr (certificate_step6 cs extracted_text None (lower skill_or_achievement)))"

definition certificate_step4 ::
  "scores \<Rightarrow> string \<Rightarrow> string \<Rightarrow> string \<Rightarrow> string option \<Rightarrow>
   exn + (bool \<times> string \<times> scores)" where
  \<comment> \<open>Step 4: the student's name\<close>
  "certificate_step4 cs extracted_text student_name skill_or_achievement description =
     (let student_name_lower = lower student_name;
          name_parts = split student_name_lower
      in if name_parts \<noteq> []
         then
          let matched_name_parts =
                length (filter (\<lambda>part. 2 < length part \<and> str_in part extracted_text)
                          name_parts);
              name_match_ratio = real matched_name_parts / real (length name_parts);
              cs1 = cs\<lparr>student_name_match := round2 name_match_ratio\<rparr>
          in if name_match_ratio < 0.6
             then Inr (False, cert_name_msg student_name,
                       cs1\<lparr>overall_confidence := round2
                         (image_type_match cs1 * 0.25 + student_name_match cs1 * 0.25 +
                          ocr_confidence cs1 * 0.5)\<rparr>)
             else certificate_step5 cs1 extracted_text skill_or_achievement description
         else certificate_step5 (cs\<lparr>student_name_match := 1\<rparr>) extracted_text
                skill_or_achievement description)"

definition verify_certificate_try ::
  "('b, 'i) externals \<Rightarrow> 'b \<Rightarrow> string \<Rightarrow> string \<Rightarrow> string \<Rightarrow> string option \<Rightarrow>
   exn + (bool \<times> string \<times> scores)" where
  \<comment> \<open>the body of the \<open>try\<close> block of \<open>verify_certificate_with_ai\<close>, Steps 1 to 3\<close>
  "verify_certificate_try ext image_bytes mime_type student_name skill_or_achievement
     description =
     (case preprocess_image ext image_bytes of Inl e \<Rightarrow> Inl e | Inr img \<Rightarrow>
      case generate_caption ext img cert_caption_prompt of Inl e \<Rightarrow> Inl e | Inr caption \<Rightarrow>
        let caption_lower = lower caption;
            is_certificate = list_ex (\<lambda>keyword. str_in keyword caption_lower)
                               [''yes'', ''certificate'', ''award''];
            confidence = zero_scores
        in if \<not> is_certificate
           then Inr (False, cert_not_valid_msg,
                     confidence\<lparr>image_type_match := 0, overall_confidence := 0\<rparr>)
           else
            let cs = confidence\<lparr>image_type_match := 1\<rparr>
            in case extract_text ext img of Inl e \<Rightarrow> Inl e | Inr ocr \<Rightarrow>
                 let extracted_text = lower (full_text ocr);
                     cs1 = (if confidence_scores ocr \<noteq> []
                            then cs\<lparr>ocr_confidence := round2
                                   (sum_list (confidence_scores ocr) /
                                    real (length (confidence_scores ocr)))\<rparr>
                            else cs\<lparr>ocr_confidence := 0\<rparr>)
                 in if extracted_text = []
                    then Inr (False, cert_no_text_msg,
                              cs1\<lparr>overall_confidence := ocr_confidence cs1 * 0.2\<rparr>)
                    else certificate_step4 cs1 extracted_text student_name
                           skill_or_achievement description)"

definition verify_certificate_with_ai ::
  "('b, 'i) externals \<Rightarrow> 'b \<Rightarrow> string \<Rightarrow> string \<Rightarrow> string \<Rightarrow> string option \<Rightarrow>
   bool \<times> string \<times> scores" where
  \<comment> \<open>\<open>except Exception as e\<close>: the exception becomes a rejection with all scores zero\<close>
  "verify_certificate_with_ai ext image_bytes mime_type student_name skill_or_achievement
     description =
     (case verify_certificate_try ext image_bytes mime_type student_name skill_or_achievement
             description of
        Inl e \<Rightarrow> (False, ''Error processing certificate: '' @ e, zero_scores)
      | Inr result \<Rightarrow> result)"

subsection \<open>The collaborators' state\<close>

text \<open>
  The loaded models are objects with a state of their own, and a call may answer differently
  from the call before it.  To follow how often the heuristics call them, both are given
  once more with that state threaded through: every call takes the state it finds and
  returns the state it leaves.  The text of each function is the one above, call for call.
\<close>

record ('b, 'i, 'w) models =
  preprocess_image_st :: "'b \<Rightarrow> 'w \<Rightarrow> (exn + 'i) \<times> 'w"
  generate_caption_st :: "'i \<Rightarrow> string \<Rightarrow> 'w \<Rightarrow> (exn + string) \<times> 'w"
  extract_text_st :: "'i \<Rightarrow> 'w \<Rightarrow> (exn + ocr_data) \<times> 'w"

definition verify_college_id_try_st ::
  "('b, 'i, 'w) models \<Rightarrow> 'b \<Rightarrow> string \<Rightarrow> string \<Rightarrow> 'w \<Rightarrow>
   (exn + (bool \<times> string \<times> string)) \<times> 'w" where
  \<comment> \<open>the body of the \<open>try\<close> block of \<open>verify_college_id_with_models\<close>\<close>
  "verify_college_id_try_st ext image_bytes student_name roll_no w =
     (case preprocess_image_st ext image_bytes w of
        (Inl e, w1) \<Rightarrow> (Inl e, w1)
      | (Inr img, w1) \<Rightarrow>
         (case generate_caption_st ext img id_caption_prompt w1 of
            (Inl e, w2) \<Rightarrow> (Inl e, w2)
          | (Inr caption, w2) \<Rightarrow>
              let caption_lower = lower caption;
                  is_id_card = list_ex (\<lambda>keyword. str_in keyword caption_lower)
                                 [''yes'', ''id'', ''student'']
              in if \<not> is_id_card then (Inr (False, id_not_valid_msg, ''''), w2)
                 else
                  (case extract_text_st ext img w2 of
                     (Inl e, w3) \<Rightarrow> (Inl e, w3)
                   | (Inr ocr, w3) \<Rightarrow>
                      (let extracted_text = lower (full_text ocr)
                       in if extracted_text = [] then Inr (False, id_no_text_msg, '''')
                          else
                           let student_name_lower = lower student_name;
                               name_parts = split student_name_lower;
                               matched_parts =
                                 length (filter (\<lambda>part. 2 < length part \<and>
                                                   str_in part extracted_text) name_parts);
                               name_match_ratio =
                                 (if name_parts \<noteq> []
                                  then real matched_parts / real (length name_parts) else 0)
                           in if name_match_ratio < 0.6
                              then Inr (False, id_name_msg student_name, '''')
                              else
                               let roll_no_clean =
                                     replace_empty CHR ''_'' (replace_empty CHR ''-''
                                       (replace_empty CHR '' '' (lower roll_no)));
                                   extracted_clean =
                                     replace_empty CHR ''_'' (replace_empty CHR ''-''
                                       (replace_empty CHR '' '' extracted_text));
                                   verified =
                                     Inr (True, ''College ID verified successfully'',
                                          strip (full_text ocr))
                               in if \<not> str_in roll_no_clean extracted_clean
                                  then
                                   let matched_chars =
                                         length (filter
                                           (\<lambda>char. str_in [char] extracted_clean)
                                           roll_no_clean);
                                       roll_match_ratio =
                                         (if roll_no_clean \<noteq> []
                                          then real matched_chars /
                                               real (length roll_no_clean)
                                          else 0)
                                   in if roll_match_ratio < 0.6
                                      then Inr (False, id_roll_msg roll_no, '''')
                                      else verified
                                  else verified,
                       w3))))"

definition verify_college_id_with_models_st ::
  "('b, 'i, 'w) models \<Rightarrow> 'b \<Rightarrow> string \<Rightarrow> string \<Rightarrow> 'w \<Rightarrow>
   (bool \<times> string \<times> string) \<times> 'w" where
  \<comment> \<open>\<open>except Exception as e\<close>: the handler calls no collaborator\<close>
  "verify_college_id_with_models_st ext image_bytes student_name roll_no w =
     (case verify_college_id_try_st ext image_bytes student_name roll_no w of
        (Inl e, w') \<Rightarrow> ((False, ''Error processing college ID: '' @ e, ''''), w')
      | (Inr result, w') \<Rightarrow> (result, w'))"

definition verify_certificate_try_st ::
  "('b, 'i, 'w) models \<Rightarrow> 'b \<Rightarrow> string \<Rightarrow> string \<Rightarrow> string \<Rightarrow> string option \<Rightarrow> 'w \<Rightarrow>
   (exn + (bool \<times> string \<times> scores)) \<times> 'w" where
  \<comment> \<open>the body of the \<open>try\<close> block of \<open>verify_certificate_with_ai\<close>; Steps 4 to 7 call no
      collaborator\<close>
  "verify_certificate_try_st ext image_bytes mime_type student_name skill_or_achievement
     description w =
     (case preprocess_image_st ext image_bytes w of
        (Inl e, w1) \<Rightarrow> (Inl e, w1)
      | (Inr img, w1) \<Rightarrow>
         (case generate_caption_st ext img cert_caption_prompt w1 of
            (Inl e, w2) \<Rightarrow> (Inl e, w2)
          | (Inr caption, w2) \<Rightarrow>
              let caption_lower = lower caption;
                  is_certificate = list_ex (\<lambda>keyword. str_in keyword caption_lower)
                                     [''yes'', ''certificate'', ''award''];
                  confidence = zero_scores
              in if \<not> is_certificate
                 then (Inr (False, cert_not_valid_msg,
                            confidence\<lparr>image_type_match := 0, overall_confidence := 0\<rparr>), w2)
                 else
                  let cs = confidence\<lparr>image_type_match := 1\<rparr>
                  in (case extract_text_st ext img w2 of
                        (Inl e, w3) \<Rightarrow> (Inl e, w3)
                      | (Inr ocr, w3) \<Rightarrow>
                         (let extracted_text = lower (full_text ocr);
                              cs1 = (if confidence_scores ocr \<noteq> []
                                     then cs\<lparr>ocr_confidence := round2
                                            (sum_list (confidence_scores ocr) /
                                             real (length (confidence_scores ocr)))\<rparr>
                                     else cs\<lparr>ocr_confidence := 0\<rparr>)
                          in if extracted_text = []
                             then Inr (False, cert_no_text_msg,
                                       cs1\<lparr>overall_confidence := ocr_confidence cs1 * 0.2\<rparr>)
                             else certificate_step4 cs1 extracted_text student_name
                                    skill_or_achievement description,
                          w3))))"

definition verify_certificate_with_ai_st ::
  "('b, 'i, 'w) models \<Rightarrow> 'b \<Rightarrow> string \<Rightarrow> string \<Rightarrow> string \<Rightarrow> string option \<Rightarrow> 'w \<Rightarrow>
   (bool \<times> string \<times> scores) \<times> 'w" where
  "verify_certificate_with_ai_st ext image_bytes mime_type student_name skill_or_achievement
     description w =
     (case verify_certificate_try_st ext image_bytes mime_type student_name
             skill_or_achievement description w of
        (Inl e, w') \<Rightarrow> ((False, ''Error processing certificate: '' @ e, zero_scores), w')
      | (Inr result, w') \<Rightarrow> (result, w'))"

section \<open>The document store (database.py)\<close>

text \<open>
  The collections are lists of documents in insertion order.  A document is a record of the
  keys the repository writes; a key that an update can set to \<open>null\<close> has an optional value,
  and \<open>comments\<close>, which \<open>create_student\<close> does not write, may be absent altogether.
  The store's operations are the documented ones of MongoDB: a unique index refuses a second
  document with the same key, \<open>update_one\<close> changes the first document matching the filter,
  \<open>matched_count\<close> counts the documents the filter selected and \<open>modified_count\<close> those
  the update really changed.
\<close>

datatype error = ValueError string | DuplicateKeyError string

record college =
  co_id :: nat
  co_name :: string
  co_address :: string
  co_contact_email :: string
  co_contact_phone :: string
  co_college_id :: string
  co_admin_password :: string

record skill_item =
  sk_name :: string
  sk_verified :: bool
  sk_certificate :: "string option"
  sk_description :: "string option"

record project_item =
  pr_name :: string
  pr_verified :: bool
  pr_github_link :: string
  pr_description :: "string option"

record comment =
  cm_author :: string
  cm_author_type :: string
  cm_text :: string
  cm_timestamp :: string

record student =
  st_id :: nat
  st_college_name :: "string option"
  st_name :: "string option"
  st_email :: "string option"
  st_phone :: "string option"
  st_roll_no :: "string option"
  st_password :: string
  st_branch :: "string option"
  st_year :: "int option"
  st_age :: "int option"
  st_college_id_pic :: "string option"
  st_skills :: "skill_item list"
  st_achievements :: "skill_item list"
  st_projects :: "project_item list"
  st_comments :: "comment list option"

record database =
  colleges_collection :: "college list"
  students_collection :: "student list"
  next_id :: nat

record update_result =
  matched_count :: nat
  modified_count :: nat

definition dup_key_errmsg :: "string \<Rightarrow> string \<Rightarrow> string option \<Rightarrow> string" where
  \<comment> \<open>the server's message for a refused key, which \<open>str(e)\<close> starts with\<close>
  "dup_key_errmsg coll field v =
     ''E11000 duplicate key error collection: erp.'' @ coll @ '' index: '' @ field @
     ''_1 dup key: { '' @ field @ '': '' @
     (case v of None \<Rightarrow> ''null'' | Some x \<Rightarrow> [CHR 0x22] @ x @ [CHR 0x22]) @ '' }''"

definition college_key_conflict :: "college \<Rightarrow> college list \<Rightarrow> string option" where
  \<comment> \<open>the unique indexes of \<open>create_indexes\<close>, in the order they are created\<close>
  "college_key_conflict c cs =
     (if list_ex (\<lambda>d. co_name d = co_name c) cs
      then Some (dup_key_errmsg ''colleges'' ''name'' (Some (co_name c)))
      else if list_ex (\<lambda>d. co_college_id d = co_college_id c) cs
      then Some (dup_key_errmsg ''colleges'' ''college_id'' (Some (co_college_id c)))
      else if list_ex (\<lambda>d. co_contact_email d = co_contact_email c) cs
      then Some (dup_key_errmsg ''colleges'' ''contact_email'' (Some (co_contact_email c)))
      else if list_ex (\<lambda>d. co_contact_phone d = co_contact_phone c) cs
      then Some (dup_key_errmsg ''colleges'' ''contact_phone'' (Some (co_contact_phone c)))
      else None)"

definition student_key_conflict :: "student \<Rightarrow> student list \<Rightarrow> string option" where
  "student_key_conflict s ds =
     (if list_ex (\<lambda>d. st_email d = st_email s) ds
      then Some (dup_key_errmsg ''students'' ''email'' (st_email s))
      else if list_ex (\<lambda>d. st_phone d = st_phone s) ds
      then Some (dup_key_errmsg ''students'' ''phone'' (st_phone s))
      else if list_ex (\<lambda>d. st_roll_no d = st_roll_no s) ds
      then Some (dup_key_errmsg ''students'' ''roll_no'' (st_roll_no s))
      else None)"

definition insert_one_college :: "college \<Rightarrow> database \<Rightarrow> error + (nat \<times> database)" where
  \<comment> \<open>\<open>colleges_collection.insert_one\<close>: the new \<open>_id\<close> and the store\<close>
  "insert_one_college c db =
     (case college_key_conflict c (colleges_collection db) of
        Some msg \<Rightarrow> Inl (DuplicateKeyError msg)
      | None \<Rightarrow>
          Inr (next_id db,
               db\<lparr>colleges_collection := colleges_collection db @ [c\<lparr>co_id := next_id db\<rparr>],
                  next_id := Suc (next_id db)\<rparr>))"

definition insert_one_student :: "student \<Rightarrow> database \<Rightarrow> error + (nat \<times> database)" where
  "insert_one_student s db =
     (case student_key_conflict s (students_collection db) of
        Some msg \<Rightarrow> Inl (DuplicateKeyError msg)
      | None \<Rightarrow>
          Inr (next_id db,
               db\<lparr>students_collection := students_collection db @ [s\<lparr>st_id := next_id db\<rparr>],
                  next_id := Suc (next_id db)\<rparr>))"

definition find_one :: "('d \<Rightarrow> bool) \<Rightarrow> 'd list \<Rightarrow> 'd option" where
  "find_one flt ds = find flt ds"

definition changed_key_conflict :: "student \<Rightarrow> student \<Rightarrow> student list \<Rightarrow> string option" where
  \<comment> \<open>an update is refused when it moves a unique key onto the key of another document\<close>
  "changed_key_conflict old new others =
     (if st_email new \<noteq> st_email old \<and> list_ex (\<lambda>d. st_email d = st_email new) others
      then Some (dup_key_errmsg ''students'' ''email'' (st_email new))
      else if st_phone new \<noteq> st_phone old \<and> list_ex (\<lambda>d. st_phone d = st_phone new) others
      then Some (dup_key_errmsg ''students'' ''phone'' (st_phone new))
      else if st_roll_no new \<noteq> st_roll_no old \<and>
              list_ex (\<lambda>d. st_roll_no d = st_roll_no new) others
      then Some (dup_key_errmsg ''students'' ''roll_no'' (st_roll_no new))
      else None)"

fun update_one_from ::
  "student list \<Rightarrow> (student \<Rightarrow> bool) \<Rightarrow> (student \<Rightarrow> student) \<Rightarrow> student list \<Rightarrow>
   error + (student list \<times> update_result)" where
  "update_one_from seen flt upd [] = Inr (seen, \<lparr>matched_count = 0, modified_count = 0\<rparr>)"
| "update_one_from seen flt upd (d # ds) =
     (if flt d
      then (case changed_key_conflict d (upd d) (seen @ ds) of
              Some msg \<Rightarrow> Inl (DuplicateKeyError msg)
            | None \<Rightarrow>
                Inr (seen @ upd d # ds,
                     \<lparr>matched_count = 1, modified_count = (if upd d = d then 0 else 1)\<rparr>))
      else update_one_from (seen @ [d]) flt upd ds)"

definition update_one ::
  "(student \<Rightarrow> bool) \<Rightarrow> (student \<Rightarrow> student) \<Rightarrow> database \<Rightarrow>
   error + (update_result \<times> database)" where
  \<comment> \<open>\<open>students_collection.update_one(filter, update)\<close>\<close>
  "update_one flt upd db =
     (case update_one_from [] flt upd (students_collection db) of
        Inl e \<Rightarrow> Inl e
      | Inr (ds, r) \<Rightarrow> Inr (r, db\<lparr>students_collection := ds\<rparr>))"

section \<open>The record access layer (crud.py)\<close>

text \<open>
  Every function takes the store and returns the store it leaves, or the exception it raises.
  \<open>convert_objectid\<close> only renames \<open>_id\<close> to \<open>id\<close> and makes it a string; the field
  \<open>st_id\<close> (\<open>co_id\<close>) stands for both, so a returned document is the stored record.
  \<open>hash_password\<close> belongs to the hashing library and is a parameter.
\<close>

record college_create =
  cc_name :: string
  cc_address :: string
  cc_contact_email :: string
  cc_contact_phone :: string
  cc_college_id :: string
  cc_admin_password :: string

record student_create =
  sc_college_name :: string
  sc_name :: string
  sc_email :: string
  sc_phone :: string
  sc_roll_no :: string
  sc_password :: string
  sc_branch :: string
  sc_year :: int
  sc_age :: int

definition create_college_duplicate :: "college_create \<Rightarrow> string \<Rightarrow> error" where
  \<comment> \<open>the handler \<open>except DuplicateKeyError as e\<close> of \<open>create_college\<close>\<close>
  "create_college_duplicate college error_msg =
     (if str_in ''name'' error_msg
      then ValueError (''College name '' @ quoted (cc_name college) @ '' already exists'')
      else if str_in ''college_id'' error_msg
      then ValueError (''College ID '' @ quoted (cc_college_id college) @ '' already exists'')
      else if str_in ''contact_email'' error_msg
      then ValueError
             (''Contact email '' @ quoted (cc_contact_email college) @ '' already exists'')
      else if str_in ''contact_phone'' error_msg
      then ValueError
             (''Contact phone '' @ quoted (cc_contact_phone college) @ '' already exists'')
      else ValueError ''Duplicate entry detected. Please check all fields.'')"

definition create_college ::
  "(string \<Rightarrow> string) \<Rightarrow> college_create \<Rightarrow> database \<Rightarrow> error + (college \<times> database)" where
  "create_college hash_password college db =
     (let college_doc =
            \<lparr>co_id = 0, co_name = cc_name college, co_address = cc_address college,
             co_contact_email = cc_contact_email college,
             co_contact_phone = cc_contact_phone college,
             co_college_id = cc_college_id college,
             co_admin_password = hash_password (cc_admin_password college)\<rparr>
      in case insert_one_college college_doc db of
           Inr (inserted_id, db1) \<Rightarrow> Inr (college_doc\<lparr>co_id := inserted_id\<rparr>, db1)
         | Inl (DuplicateKeyError e) \<Rightarrow> Inl (create_college_duplicate college e)
         | Inl other \<Rightarrow> Inl other)"

definition create_student_duplicate :: "student_create \<Rightarrow> string \<Rightarrow> error" where
  \<comment> \<open>the handler \<open>except DuplicateKeyError as e\<close> of \<open>create_student\<close>\<close>
  "create_student_duplicate student e =
     (if str_in ''email'' e
      then ValueError (''Email '' @ quoted (sc_email student) @ '' already exists'')
      else if str_in ''phone'' e
      then ValueError (''Phone number '' @ quoted (sc_phone student) @ '' already exists'')
      else if str_in ''roll_no'' e
      then ValueError (''Roll number '' @ quoted (sc_roll_no student) @ '' already exists'')
      else ValueError ''Duplicate entry detected'')"

definition create_student ::
  "(string \<Rightarrow> string) \<Rightarrow> student_create \<Rightarrow> database \<Rightarrow> error + (student \<times> database)" where
  "create_student hash_password student db =
     (let student_doc =
            \<lparr>st_id = 0, st_college_name = Some (sc_college_name student),
             st_name = Some (sc_name student), st_email = Some (sc_email student),
             st_phone = Some (sc_phone student), st_roll_no = Some (sc_roll_no student),
             st_password = hash_password (sc_password student),
             st_branch = Some (sc_branch student), st_year = Some (sc_year student),
             st_age = Some (sc_age student), st_college_id_pic = None,
             st_skills = [], st_achievements = [], st_projects = [], st_comments = None\<rparr>
      in case insert_one_student student_doc db of
           Inr (inserted_id, db1) \<Rightarrow> Inr (student_doc\<lparr>st_id := inserted_id\<rparr>, db1)
         | Inl (DuplicateKeyError e) \<Rightarrow> Inl (create_student_duplicate student e)
         | Inl other \<Rightarrow> Inl other)"

definition get_student_by_roll_no :: "string \<Rightarrow> database \<Rightarrow> student option" where
  "get_student_by_roll_no roll_no db =
     find_one (\<lambda>d. st_roll_no d = Some roll_no) (students_collection db)"

record student_update =
  su_college_name :: "string option option"
  su_name :: "string option option"
  su_email :: "string option option"
  su_phone :: "string option option"
  su_roll_no :: "string option option"
  su_branch :: "string option option"
  su_year :: "int option option"
  su_age :: "int option option"
  su_college_id_pic :: "string option option"

text \<open>
  A field of \<open>StudentUpdate\<close> is \<open>None\<close> when the request did not supply it and \<open>Some v\<close> when
  it did, where \<open>v\<close> itself may be \<open>null\<close>.  \<open>student.dict(exclude_unset=True)\<close> keeps the
  supplied fields only, so the payload record is read as that dictionary.
\<close>

definition update_data_empty :: "student_update \<Rightarrow> bool" where
  \<comment> \<open>\<open>not update_data\<close>\<close>
  "update_data_empty u \<longleftrightarrow>
     su_college_name u = None \<and> su_name u = None \<and> su_email u = None \<and> su_phone u = None \<and>
     su_roll_no u = None \<and> su_branch u = None \<and> su_year u = None \<and> su_age u = None \<and>
     su_college_id_pic u = None"

definition supplied :: "'a option \<Rightarrow> 'a \<Rightarrow> 'a" where
  "supplied field old = (case field of None \<Rightarrow> old | Some v \<Rightarrow> v)"

definition set_update_data :: "student_update \<Rightarrow> student \<Rightarrow> student" where
  \<comment> \<open>\<open>{"$set": update_data}\<close>\<close>
  "set_update_data u d =
     d\<lparr>st_college_name := supplied (su_college_name u) (st_college_name d),
       st_name := supplied (su_name u) (st_name d),
       st_email := supplied (su_email u) (st_email d),
       st_phone := supplied (su_phone u) (st_phone d),
       st_roll_no := supplied (su_roll_no u) (st_roll_no d),
       st_branch := supplied (su_branch u) (st_branch d),
       st_year := supplied (su_year u) (st_year d),
       st_age := supplied (su_age u) (st_age d),
       st_college_id_pic := supplied (su_college_id_pic u) (st_college_id_pic d)\<rparr>"

definition update_student ::
  "string \<Rightarrow> student_update \<Rightarrow> database \<Rightarrow> error + (student option \<times> database)" where
  "update_student roll_no student db =
     (if update_data_empty student then Inr (get_student_by_roll_no roll_no db, db)
      else
       case update_one (\<lambda>d. st_roll_no d = Some roll_no) (set_update_data student) db of
         Inl e \<Rightarrow> Inl e
       | Inr (result, db1) \<Rightarrow>
           if matched_count result = 0 then Inr (None, db1)
           else Inr (get_student_by_roll_no roll_no db1, db1))"

datatype 'a reply = Text string | Nothing | Document 'a

definition invalid_link_msg :: string where
  "invalid_link_msg = ''Invalid repository link. Must be from GitHub or GitLab''"

definition add_projects ::
  "string \<Rightarrow> string \<Rightarrow> string \<Rightarrow> database \<Rightarrow> error + (student reply \<times> database)" where
  "add_projects roll_no project_name github_link db =
     (if github_link = [] \<or>
         \<not> (str_in ''github.com'' (lower github_link) \<or> str_in ''gitlab.com'' (lower github_link))
      then Inr (Text invalid_link_msg, db)
      else
       case find_one (\<lambda>d. st_roll_no d = Some roll_no) (students_collection db) of
         None \<Rightarrow> Inr (Nothing, db)
       | Some student \<Rightarrow>
           let project_obj =
                 \<lparr>pr_name = project_name, pr_verified = False, pr_github_link = github_link,
                  pr_description = None\<rparr>
           in case update_one (\<lambda>d. st_roll_no d = Some roll_no)
                     (\<lambda>d. d\<lparr>st_projects := st_projects d @ [project_obj]\<rparr>) db of
                Inl e \<Rightarrow> Inl e
              | Inr (result, db1) \<Rightarrow>
                  Inr (case get_student_by_roll_no roll_no db1 of
                         None \<Rightarrow> Nothing | Some d \<Rightarrow> Document d,
                       db1))"

record outcome =
  success :: bool
  message :: string

fun set_first_verified :: "string \<Rightarrow> skill_item list \<Rightarrow> skill_item list" where
  \<comment> \<open>\<open>{"$set": {"skills.$.verified": True}}\<close>: the first element the filter matched\<close>
  "set_first_verified skill_name [] = []"
| "set_first_verified skill_name (sk # sks) =
     (if sk_name sk = skill_name then sk\<lparr>sk_verified := True\<rparr> # sks
      else sk # set_first_verified skill_name sks)"

definition verify_student_skill ::
  "string \<Rightarrow> string \<Rightarrow> database \<Rightarrow> error + (outcome \<times> database)" where
  "verify_student_skill roll_no skill_name db =
     (case find_one (\<lambda>d. st_roll_no d = Some roll_no) (students_collection db) of
        None \<Rightarrow> Inr (\<lparr>success = False, message = ''Student not found''\<rparr>, db)
      | Some student \<Rightarrow>
          case update_one
                 (\<lambda>d. st_roll_no d = Some roll_no \<and>
                       list_ex (\<lambda>sk. sk_name sk = skill_name) (st_skills d))
                 (\<lambda>d. d\<lparr>st_skills := set_first_verified skill_name (st_skills d)\<rparr>) db of
            Inl e \<Rightarrow> Inl e
          | Inr (result, db1) \<Rightarrow>
              if 0 < modified_count result
              then Inr (\<lparr>success = True,
                         message = ''Skill '' @ quoted skill_name @ '' verified successfully''\<rparr>,
                        db1)
              else Inr (\<lparr>success = False,
                         message = ''Skill '' @ quoted skill_name @ '' not found''\<rparr>, db1))"

definition delete_comment ::
  "string \<Rightarrow> string \<Rightarrow> database \<Rightarrow> error + (outcome \<times> database)" where
  "delete_comment roll_no timestamp db =
     (case update_one (\<lambda>d. st_roll_no d = Some roll_no)
             (\<lambda>d. case st_comments d of
                     None \<Rightarrow> d
                   | Some cs \<Rightarrow>
                       d\<lparr>st_comments := Some (filter (\<lambda>c. cm_timestamp c \<noteq> timestamp) cs)\<rparr>)
             db of
        Inl e \<Rightarrow> Inl e
      | Inr (result, db1) \<Rightarrow>
          if 0 < modified_count result
          then Inr (\<lparr>success = True, message = ''Comment deleted successfully''\<rparr>, db1)
          else Inr (\<lparr>success = False, message = ''Comment not found''\<rparr>, db1))"

section \<open>The HTTP surface (main.py)\<close>

datatype 'a response = HTTPException nat string | Returned 'a

record project_added =
  pa_message :: string
  pa_project_name :: string
  pa_github_link :: string

definition add_project ::
  "string \<Rightarrow> string \<Rightarrow> string \<Rightarrow> database \<Rightarrow> error + (project_added response \<times> database)" where
  "add_project roll_no project_name github_link db =
     (case add_projects roll_no project_name github_link db of
        Inl e \<Rightarrow> Inl e
      | Inr (Nothing, db1) \<Rightarrow> Inr (HTTPException 404 ''Student not found'', db1)
      | Inr (Text result, db1) \<Rightarrow> Inr (HTTPException 400 result, db1)
      | Inr (Document d, db1) \<Rightarrow>
          Inr (Returned \<lparr>pa_message = ''Project added successfully'',
                         pa_project_name = project_name, pa_github_link = github_link\<rparr>, db1))"

definition verify_skill ::
  "string \<Rightarrow> string \<Rightarrow> database \<Rightarrow> error + (outcome response \<times> database)" where
  "verify_skill roll_no skill_name db =
     (case verify_student_skill roll_no skill_name db of
        Inl e \<Rightarrow> Inl e
      | Inr (result, db1) \<Rightarrow>
          if \<not> success result then Inr (HTTPException 404 (message result), db1)
          else Inr (Returned result, db1))"

section \<open>The properties, as the specification words them\<close>

definition name_match_ratio :: "string \<Rightarrow> string \<Rightarrow> real" where
  \<comment> \<open>the tokens of the name longer than two characters that occur in the lower-cased OCR
      text, over all tokens of the name; the name is compared in lower case\<close>
  "name_match_ratio student_name ocr_text =
     real (length (filter (\<lambda>t. 2 < length t \<and> str_in t (lower ocr_text))
                     (split (lower student_name)))) /
     real (length (split (lower student_name)))"

definition cleaned :: "string \<Rightarrow> string" where
  \<comment> \<open>lower case, without spaces, hyphens and underscores\<close>
  "cleaned s = filter (\<lambda>c. c \<noteq> CHR '' '' \<and> c \<noteq> CHR ''-'' \<and> c \<noteq> CHR ''_'') (lower s)"

definition char_overlap_ratio :: "string \<Rightarrow> string \<Rightarrow> real" where
  \<comment> \<open>the characters of the cleaned roll number that occur somewhere in the cleaned OCR text,
      over the length of the cleaned roll number\<close>
  "char_overlap_ratio roll_no ocr_text =
     real (length (filter (\<lambda>c. c \<in> set (cleaned ocr_text)) (cleaned roll_no))) /
     real (length (cleaned roll_no))"

definition scores_after_ocr :: "ocr_data \<Rightarrow> scores" where
  \<comment> \<open>the confidence map of a certificate when Step 4 begins\<close>
  "scores_after_ocr ocr =
     zero_scores\<lparr>image_type_match := 1,
       ocr_confidence :=
         (if confidence_scores ocr \<noteq> []
          then round2 (sum_list (confidence_scores ocr) / real (length (confidence_scores ocr)))
          else 0)\<rparr>"

definition comments_of :: "student \<Rightarrow> comment list" where
  \<comment> \<open>\<open>student.get("comments", [])\<close>\<close>
  "comments_of d = (case st_comments d of None \<Rightarrow> [] | Some cs \<Rightarrow> cs)"

definition unsupplied_kept :: "student_update \<Rightarrow> student \<Rightarrow> student \<Rightarrow> bool" where
  \<comment> \<open>every field the payload does not supply, and every key outside the payload's schema,
      has in \<open>new\<close> the value it has in \<open>old\<close>\<close>
  "unsupplied_kept u old new \<longleftrightarrow>
     (su_college_name u = None \<longrightarrow> st_college_name new = st_college_name old) \<and>
     (su_name u = None \<longrightarrow> st_name new = st_name old) \<and>
     (su_email u = None \<longrightarrow> st_email new = st_email old) \<and>
     (su_phone u = None \<longrightarrow> st_phone new = st_phone old) \<and>
     (su_roll_no u = None \<longrightarrow> st_roll_no new = st_roll_no old) \<and>
     (su_branch u = None \<longrightarrow> st_branch new = st_branch old) \<and>
     (su_year u = None \<longrightarrow> st_year new = st_year old) \<and>
     (su_age u = None \<longrightarrow> st_age new = st_age old) \<and>
     (su_college_id_pic u = None \<longrightarrow> st_college_id_pic new = st_college_id_pic old) \<and>
     st_id new = st_id old \<and> st_password new = st_password old \<and>
     st_skills new = st_skills old \<and> st_achievements new = st_achievements old \<and>
     st_projects new = st_projects old \<and> st_comments new = st_comments old"



definition answers_of :: "('b, 'i, 'w) models \<Rightarrow> 'b \<Rightarrow> string \<Rightarrow> 'w \<Rightarrow> ('b, 'i) externals" where
  \<comment> \<open>what the collaborators answer when each is called once, in the order of the
      heuristics, from the state \<open>w\<close>\<close>
  "answers_of ext image_bytes prompt w =
     \<lparr>preprocess_image = (\<lambda>b. fst (preprocess_image_st ext b w)),
      generate_caption =
        (\<lambda>img p. fst (generate_caption_st ext img p
                        (snd (preprocess_image_st ext image_bytes w)))),
      extract_text =
        (\<lambda>img. fst (extract_text_st ext img
                      (snd (generate_caption_st ext img prompt
                             (snd (preprocess_image_st ext image_bytes w))))))\<rparr>"

section \<open>Example inputs\<close>

definition example_ocr :: "string \<Rightarrow> ocr_data" where
  "example_ocr text = \<lparr>full_text = text, confidence_scores = [9 / 10]\<rparr>"

definition example_ext :: "exn + unit \<Rightarrow> exn + string \<Rightarrow> exn + ocr_data \<Rightarrow> (unit, unit) externals" where
  \<comment> \<open>collaborators that answer every call the same way\<close>
  "example_ext preprocessed caption ocr =
     \<lparr>preprocess_image = (\<lambda>_. preprocessed), generate_caption = (\<lambda>_ _. caption),
      extract_text = (\<lambda>_. ocr)\<rparr>"


definition example_college :: college where
  "example_college =
     \<lparr>co_id = 0, co_name = ''IIITNR'', co_address = ''123 Main St, City, State'',
      co_contact_email = ''username@college.edu'', co_contact_phone = ''1234567890'',
      co_college_id = ''COLL001'', co_admin_password = ''hashed''\<rparr>"

definition example_student :: student where
  "example_student =
     \<lparr>st_id = 1, st_college_name = Some ''IIITNR'', st_name = Some ''Jane Smith'',
      st_email = Some ''jane.smith@example.com'', st_phone = Some ''1234567890'',
      st_roll_no = Some ''CS101'', st_password = ''hashed'',
      st_branch = Some ''Computer Science'', st_year = Some 2, st_age = Some 20,
      st_college_id_pic = None,
      st_skills = [\<lparr>sk_name = ''Python'', sk_verified = False, sk_certificate = None,
                    sk_description = None\<rparr>],
      st_achievements = [], st_projects = [],
      st_comments = Some [\<lparr>cm_author = ''admin'', cm_author_type = ''admin'',
                            cm_text = ''Great progress on this project!'',
                            cm_timestamp = ''2025-01-15T10:30:00.000000''\<rparr>]\<rparr>"

definition example_db :: database where
  "example_db =
     \<lparr>colleges_collection = [example_college], students_collection = [example_student],
      next_id = 2\<rparr>"

definition example_db_verified :: database where
  \<comment> \<open>\<open>example_db\<close> with the skill \<open>Python\<close> of \<open>CS101\<close> verified\<close>
  "example_db_verified =
     example_db\<lparr>students_collection :=
       [example_student\<lparr>st_skills :=
          [\<lparr>sk_name = ''Python'', sk_verified = True, sk_certificate = None,
            sk_description = None\<rparr>]\<rparr>]\<rparr>"

definition second_college :: college_create where
  \<comment> \<open>another college that registers with the contact email of \<open>example_college\<close>\<close>
  "second_college =
     \<lparr>cc_name = ''NIT Raipur'', cc_address = ''GE Road, Raipur'',
      cc_contact_email = ''username@college.edu'', cc_contact_phone = ''9876543210'',
      cc_college_id = ''COLL002'', cc_admin_password = ''securePassword123''\<rparr>"

definition name_only_update :: student_update where
  "name_only_update =
     \<lparr>su_college_name = None, su_name = Some (Some ''Jane A. Smith''), su_email = None,
      su_phone = None, su_roll_no = None, su_branch = None, su_year = None, su_age = None,
      su_college_id_pic = None\<rparr>"

definition empty_update :: student_update where
  "empty_update =
     \<lparr>su_college_name = None, su_name = None, su_email = None, su_phone = None,
      su_roll_no = None, su_branch = None, su_year = None, su_age = None,
      su_college_id_pic = None\<rparr>"


section \<open>Facts about the string functions\<close>

lemma lower_char_plus_32:
  assumes "isupper c"
  shows "of_char (lower_char c) = (of_char c :: nat) + 32"
proof (cases c)
  case (Char b0 b1 b2 b3 b4 b5 b6 b7)
  with assms show ?thesis
    by (cases b5; cases b6; cases b7; cases b4; cases b3; cases b2; cases b1; cases b0;
        simp add: lower_char_def isupper_def)
qed

lemma str_in_sublist: "str_in xs ys \<longleftrightarrow> sublist xs ys"
  by (induction ys) (simp_all add: sublist_Cons_right)

lemma str_in_single: "str_in [c] ys \<longleftrightarrow> c \<in> set ys"
  by (induction ys) auto


lemma cleaned_replace:
  "replace_empty CHR ''_'' (replace_empty CHR ''-'' (replace_empty CHR '' '' (lower s))) = cleaned s"
  by (simp add: replace_empty_def cleaned_def conj_commute conj_left_commute)

lemma lower_lower: "lower (lower s) = lower s"
proof -
  have "lower_char (lower_char c) = lower_char c" for c
    by (cases c) (simp add: lower_char_def isupper_def)
  then show ?thesis by (simp add: lower_def)
qed

lemmas eval_defs =
  example_ext_def example_ocr_def lower_def lower_char_def isupper_def split_def isspace_def
  strip_def replace_empty_def quoted_def

section \<open>The image-type stage\<close>

text \<open>
  C2, as the code has it.  When the lower-cased caption contains none of the three keywords,
  verification stops at once: an ID card is rejected with an empty extracted id (that result
  has no confidence map), a certificate with every score zero, \<open>image_type_match\<close> included,
  and the OCR model is not consulted.  The caption \<open>No, this is not an ID\<close> contains the
  keyword \<open>id\<close>, so it is never rejected at this stage.
\<close>

theorem caption_gate_rejects:
  "(preprocess_image ext b = Inr img \<and> generate_caption ext img id_caption_prompt = Inr caption \<and>
    \<not> list_ex (\<lambda>k. str_in k (lower caption)) [''yes'', ''id'', ''student'']
    \<longrightarrow> verify_college_id_with_models ext b student_name roll_no
          = (False, ''The uploaded image does not appear to be a valid college ID card'', ''''))
   \<and> (preprocess_image ext b = Inr img \<and>
       generate_caption ext img cert_caption_prompt = Inr caption \<and>
       \<not> list_ex (\<lambda>k. str_in k (lower caption)) [''yes'', ''certificate'', ''award'']
       \<longrightarrow> verify_certificate_with_ai ext b mime student_name skill description
             = (False, ''The uploaded image does not appear to be a valid certificate'',
                zero_scores)
           \<and> image_type_match (snd (snd
                 (verify_certificate_with_ai ext b mime student_name skill description))) = 0)
   \<and> (preprocess_image ext b = Inr img \<and>
       generate_caption ext img id_caption_prompt = Inr ''No, this is not an ID''
       \<longrightarrow> fst (snd (verify_college_id_with_models ext b student_name roll_no))
             \<noteq> ''The uploaded image does not appear to be a valid college ID card'')"
proof (intro conjI impI)
  assume "preprocess_image ext b = Inr img \<and>
    generate_caption ext img id_caption_prompt = Inr caption \<and>
    \<not> list_ex (\<lambda>k. str_in k (lower caption)) [''yes'', ''id'', ''student'']"
  then show "verify_college_id_with_models ext b student_name roll_no
          = (False, ''The uploaded image does not appear to be a valid college ID card'', '''')"
    by (simp add: verify_college_id_with_models_def verify_college_id_try_def
        id_not_valid_msg_def)
next
  assume h: "preprocess_image ext b = Inr img \<and>
       generate_caption ext img cert_caption_prompt = Inr caption \<and>
       \<not> list_ex (\<lambda>k. str_in k (lower caption)) [''yes'', ''certificate'', ''award'']"
  then show "verify_certificate_with_ai ext b mime student_name skill description
             = (False, ''The uploaded image does not appear to be a valid certificate'',
                zero_scores)"
    by (simp add: verify_certificate_with_ai_def verify_certificate_try_def
        cert_not_valid_msg_def zero_scores_def)
  then show "image_type_match (snd (snd
      (verify_certificate_with_ai ext b mime student_name skill description))) = 0"
    by (simp add: zero_scores_def)
next
  assume "preprocess_image ext b = Inr img \<and>
       generate_caption ext img id_caption_prompt = Inr ''No, this is not an ID''"
  then show "fst (snd (verify_college_id_with_models ext b student_name roll_no))
             \<noteq> ''The uploaded image does not appear to be a valid college ID card''"
    by (simp add: verify_college_id_with_models_def verify_college_id_try_def Let_def
        lower_def lower_char_def isupper_def id_no_text_msg_def id_name_msg_def id_roll_msg_def
        split: sum.splits)
qed

text \<open>
  A caption that names none of the keywords, and the caption of the scenario, on
  collaborators that always answer.
\<close>

theorem caption_gate_rejects_witness:
  "verify_college_id_with_models
     (example_ext (Inr ()) (Inr ''A photo of a cat'') (Inr (example_ocr ''Jane Smith CS101'')))
     () ''Jane Smith'' ''CS101''
   = (False, ''The uploaded image does not appear to be a valid college ID card'', '''')
   \<and> verify_certificate_with_ai
       (example_ext (Inr ()) (Inr ''A photo of a cat'') (Inr (example_ocr ''Jane Smith Python'')))
       () ''image/png'' ''Jane Smith'' ''Python'' None
     = (False, ''The uploaded image does not appear to be a valid certificate'', zero_scores)
   \<and> fst (snd (verify_college_id_with_models
       (example_ext (Inr ()) (Inr ''No, this is not an ID'') (Inr (example_ocr ''Jane Smith CS101'')))
       () ''Jane Smith'' ''CS101''))
     \<noteq> ''The uploaded image does not appear to be a valid college ID card''"
  using caption_gate_rejects
          [where ext = "example_ext (Inr ()) (Inr ''A photo of a cat'') (Inr (example_ocr ''Jane Smith CS101''))"
             and b = "()" and img = "()" and caption = "''A photo of a cat''"
             and student_name = "''Jane Smith''" and roll_no = "''CS101''"]
        caption_gate_rejects
          [where ext = "example_ext (Inr ()) (Inr ''A photo of a cat'') (Inr (example_ocr ''Jane Smith Python''))"
             and b = "()" and img = "()" and caption = "''A photo of a cat''"
             and mime = "''image/png''" and student_name = "''Jane Smith''"
             and skill = "''Python''" and description = None]
        caption_gate_rejects
          [where ext = "example_ext (Inr ()) (Inr ''No, this is not an ID'') (Inr (example_ocr ''Jane Smith CS101''))"
             and b = "()" and img = "()" and student_name = "''Jane Smith''"
             and roll_no = "''CS101''"]
  by (simp add: example_ext_def lower_def lower_char_def isupper_def)

text \<open>
  C2 as the specification states it fails: with the caption \<open>No, this is not an ID\<close> and an
  OCR text that shows the student's name and roll number, the card is accepted.
\<close>

theorem no_id_caption_accepted:
  "verify_college_id_with_models
     (example_ext (Inr ()) (Inr ''No, this is not an ID'') (Inr (example_ocr ''Jane Smith CS101'')))
     () ''Jane Smith'' ''CS101''
   = (True, ''College ID verified successfully'', ''Jane Smith CS101'')"
  by (simp add: verify_college_id_with_models_def verify_college_id_try_def eval_defs Let_def)


section \<open>One answer of each collaborator\<close>

text \<open>
  A run of either heuristic sees one answer of each collaborator.  Its result is therefore
  the result of the function without state, on the answers the collaborators give when
  called once each, in order, from the state the run starts in.
\<close>

lemma fst_case_answer:
  "fst (case (x, w) of (Inl e, w') \<Rightarrow> (f e, w') | (Inr r, w') \<Rightarrow> (r, w'))
   = (case x of Inl e \<Rightarrow> f e | Inr r \<Rightarrow> r)"
  "snd (case (x, w) of (Inl e, w') \<Rightarrow> (f e, w') | (Inr r, w') \<Rightarrow> (r, w')) = w"
  "fst (case x of Inl e \<Rightarrow> (f e, w) | Inr r \<Rightarrow> (r, w))
   = (case x of Inl e \<Rightarrow> f e | Inr r \<Rightarrow> r)"
  "snd (case x of Inl e \<Rightarrow> (f e, w) | Inr r \<Rightarrow> (r, w)) = w"
  by (cases x; simp)+

lemma id_answers_of:
  "fst (verify_college_id_with_models_st ext b student_name roll_no w)
   = verify_college_id_with_models (answers_of ext b id_caption_prompt w) b student_name roll_no"
proof -
  obtain a1 w1 where p: "preprocess_image_st ext b w = (a1, w1)"
    by force
  show ?thesis
  proof (cases a1)
    case (Inl e)
    with p show ?thesis
      by (simp add: verify_college_id_with_models_st_def verify_college_id_try_st_def
          verify_college_id_with_models_def verify_college_id_try_def answers_of_def)
  next
    case (Inr img)
    note i = this
    obtain a2 w2 where c: "generate_caption_st ext img id_caption_prompt w1 = (a2, w2)"
      by force
    show ?thesis
    proof (cases a2)
      case (Inl e)
      with p i c show ?thesis
        by (simp add: verify_college_id_with_models_st_def verify_college_id_try_st_def
            verify_college_id_with_models_def verify_college_id_try_def answers_of_def)
    next
      case (Inr caption)
      note k = this
      obtain a3 w3 where x: "extract_text_st ext img w2 = (a3, w3)"
        by force
      from p i c k x show ?thesis
        by (cases a3)
          (simp_all add: verify_college_id_with_models_st_def verify_college_id_try_st_def
            verify_college_id_with_models_def verify_college_id_try_def answers_of_def
            fst_case_answer Let_def del: list_ex_Cons_iff list_ex_Nil_iff)
    qed
  qed
qed

lemma certificate_answers_of:
  "fst (verify_certificate_with_ai_st ext b mime student_name skill description w)
   = verify_certificate_with_ai (answers_of ext b cert_caption_prompt w) b mime student_name
       skill description"
proof -
  obtain a1 w1 where p: "preprocess_image_st ext b w = (a1, w1)"
    by force
  show ?thesis
  proof (cases a1)
    case (Inl e)
    with p show ?thesis
      by (simp add: verify_certificate_with_ai_st_def verify_certificate_try_st_def
          verify_certificate_with_ai_def verify_certificate_try_def answers_of_def)
  next
    case (Inr img)
    note i = this
    obtain a2 w2 where c: "generate_caption_st ext img cert_caption_prompt w1 = (a2, w2)"
      by force
    show ?thesis
    proof (cases a2)
      case (Inl e)
      with p i c show ?thesis
        by (simp add: verify_certificate_with_ai_st_def verify_certificate_try_st_def
            verify_certificate_with_ai_def verify_certificate_try_def answers_of_def)
    next
      case (Inr caption)
      note k = this
      obtain a3 w3 where x: "extract_text_st ext img w2 = (a3, w3)"
        by force
      from p i c k x show ?thesis
        by (cases a3)
          (simp_all add: verify_certificate_with_ai_st_def verify_certificate_try_st_def
            verify_certificate_with_ai_def verify_certificate_try_def answers_of_def
            fst_case_answer Let_def del: list_ex_Cons_iff list_ex_Nil_iff)
    qed
  qed
qed





section \<open>Exceptions\<close>




section \<open>The stages after the OCR call\<close>

lemma str_in_trans: "str_in xs ys \<Longrightarrow> str_in ys zs \<Longrightarrow> str_in xs zs"
  unfolding str_in_sublist by (rule sublist_order.order.trans)

lemma id_msgs_distinct:
  "id_name_msg n \<noteq> id_roll_msg r" "id_roll_msg r \<noteq> id_name_msg n"
  by (simp_all add: id_name_msg_def id_roll_msg_def)

lemma id_after_ocr:
  assumes "preprocess_image ext b = Inr img"
    and "generate_caption ext img id_caption_prompt = Inr caption"
    and "list_ex (\<lambda>k. str_in k (lower caption)) [''yes'', ''id'', ''student'']"
    and "extract_text ext img = Inr ocr"
    and "lower (full_text ocr) \<noteq> []"
  shows "verify_college_id_with_models ext b student_name roll_no =
     (if split (lower student_name) = [] \<or> name_match_ratio student_name (full_text ocr) < 0.6
      then (False, id_name_msg student_name, '''')
      else if \<not> str_in (cleaned roll_no) (cleaned (full_text ocr)) \<and>
              char_overlap_ratio roll_no (full_text ocr) < 0.6
      then (False, id_roll_msg roll_no, '''')
      else (True, ''College ID verified successfully'', strip (full_text ocr)))"
proof -
  have c: "replace_empty CHR ''_'' (replace_empty CHR ''-''
             (replace_empty CHR '' '' (lower (full_text ocr)))) = cleaned (full_text ocr)"
    by (rule cleaned_replace)
  have z: "\<not> str_in (cleaned roll_no) (cleaned (full_text ocr)) \<Longrightarrow> cleaned roll_no \<noteq> []"
    by (auto simp add: str_in_sublist)
  show ?thesis
    using assms z
    by (simp add: verify_college_id_with_models_def verify_college_id_try_def Let_def
        cleaned_replace c str_in_single name_match_ratio_def char_overlap_ratio_def
        del: list_ex_Cons_iff list_ex_Nil_iff)
qed

lemma split_sep1_from_two:
  "str_in sep d \<Longrightarrow> sep \<noteq> [] \<Longrightarrow> \<exists>p0 p1. split_sep1_from sep cur d = [p0, p1]"
  by (induction d arbitrary: cur) auto

lemma step7_name_match:
  "student_name_match (snd (snd (certificate_step7 cs t s))) = student_name_match cs"
  by (simp add: certificate_step7_def Let_def)

lemma cert_msgs_distinct:
  "cert_skill_msg s \<noteq> cert_name_msg n" "cert_institution_msg i \<noteq> cert_name_msg n"
  "''Certificate verified successfully'' \<noteq> cert_name_msg n"
  "cert_not_valid_msg \<noteq> cert_name_msg n" "cert_no_text_msg \<noteq> cert_name_msg n"
  "''Error processing certificate: '' @ e \<noteq> cert_name_msg n"
  by (simp_all add: cert_skill_msg_def cert_name_msg_def cert_institution_msg_def
      cert_not_valid_msg_def cert_no_text_msg_def)

lemma step7_msg: "fst (snd (certificate_step7 cs t s)) \<noteq> cert_name_msg n"
  by (simp add: certificate_step7_def Let_def cert_msgs_distinct)

lemma step6_name_match:
  "student_name_match (snd (snd (certificate_step6 cs t i s))) = student_name_match cs"
  by (simp add: certificate_step6_def Let_def step7_name_match split: option.splits)

lemma step6_msg: "fst (snd (certificate_step6 cs t i s)) \<noteq> cert_name_msg n"
  by (simp add: certificate_step6_def Let_def step7_msg cert_msgs_distinct
      split: option.splits)

lemma step5_returns:
  "case certificate_step5 cs t s d of
     Inl e \<Rightarrow> False
   | Inr r \<Rightarrow> student_name_match (snd (snd r)) = student_name_match cs \<and>
             fst (snd r) \<noteq> cert_name_msg n"
proof (cases "\<exists>x. d = Some x \<and> x \<noteq> [] \<and> str_in '' - '' x")
  case True
  then obtain x where x: "d = Some x" "x \<noteq> []" "str_in '' - '' x" by blast
  from split_sep1_from_two [OF x(3), of "[]"]
  obtain p0 p1 where "split_sep1 '' - '' x = [p0, p1]"
    by (auto simp add: split_sep1_def)
  with x show ?thesis
    by (simp add: certificate_step5_def step6_name_match step6_msg)
next
  case False
  then have "certificate_step5 cs t s d = Inr (certificate_step6 cs t None (lower s))"
    by (cases d) (auto simp add: certificate_step5_def)
  then show ?thesis
    by (simp add: step6_name_match step6_msg)
qed

lemma cert_after_ocr:
  assumes "preprocess_image ext b = Inr img"
    and "generate_caption ext img cert_caption_prompt = Inr caption"
    and "list_ex (\<lambda>k. str_in k (lower caption)) [''yes'', ''certificate'', ''award'']"
    and "extract_text ext img = Inr ocr"
    and "lower (full_text ocr) \<noteq> []"
  shows "verify_certificate_try ext b mime student_name skill description =
     certificate_step4 (scores_after_ocr ocr) (lower (full_text ocr)) student_name skill
       description"
  using assms
  by (simp add: verify_certificate_try_def Let_def scores_after_ocr_def
      del: list_ex_Cons_iff list_ex_Nil_iff)

lemma step4_tokens:
  assumes "split (lower student_name) \<noteq> []"
  shows "certificate_step4 cs (lower (full_text ocr)) student_name skill description =
     (if name_match_ratio student_name (full_text ocr) < 0.6
      then Inr (False, cert_name_msg student_name,
             cs\<lparr>student_name_match := round2 (name_match_ratio student_name (full_text ocr)),
                overall_confidence := round2
                  (image_type_match cs * 0.25 +
                   round2 (name_match_ratio student_name (full_text ocr)) * 0.25 +
                   ocr_confidence cs * 0.5)\<rparr>)
      else certificate_step5
             (cs\<lparr>student_name_match := round2 (name_match_ratio student_name (full_text ocr))\<rparr>)
             (lower (full_text ocr)) skill description)"
  using assms by (simp add: certificate_step4_def Let_def name_match_ratio_def)

lemma step4_no_tokens:
  assumes "split (lower student_name) = []"
  shows "certificate_step4 cs t student_name skill description =
     certificate_step5 (cs\<lparr>student_name_match := 1\<rparr>) t skill description"
  using assms by (simp add: certificate_step4_def Let_def)


section \<open>The student-name stage\<close>

text \<open>
  C3, for names that have a token.  Once the image type is confirmed and the OCR text is not
  empty, a name with at least one whitespace-separated token is rejected at the name stage
  exactly when its match ratio is below 0.6, in ID-card and in certificate verification
  alike; the certificate's \<open>student_name_match\<close> is that ratio rounded to two places.  A name
  without tokens has no ratio: ID-card verification then rejects at the name stage.  The
  name \<open>Jane Smith\<close> against any OCR text whose lower case contains \<open>jane smith cs101\<close> has
  ratio 1.
\<close>

theorem name_stage_ratio:
  "(preprocess_image ext b = Inr img \<and> generate_caption ext img id_caption_prompt = Inr caption \<and>
    list_ex (\<lambda>k. str_in k (lower caption)) [''yes'', ''id'', ''student''] \<and>
    extract_text ext img = Inr ocr \<and> lower (full_text ocr) \<noteq> [] \<and>
    split (lower student_name) \<noteq> []
    \<longrightarrow> (verify_college_id_with_models ext b student_name roll_no
           = (False, id_name_msg student_name, ''''))
          = (name_match_ratio student_name (full_text ocr) < 0.6))
   \<and> (preprocess_image ext b = Inr img \<and>
       generate_caption ext img cert_caption_prompt = Inr caption \<and>
       list_ex (\<lambda>k. str_in k (lower caption)) [''yes'', ''certificate'', ''award''] \<and>
       extract_text ext img = Inr ocr \<and> lower (full_text ocr) \<noteq> [] \<and>
       split (lower student_name) \<noteq> []
       \<longrightarrow> ((\<not> fst (verify_certificate_with_ai ext b mime student_name skill description) \<and>
             fst (snd (verify_certificate_with_ai ext b mime student_name skill description))
             = cert_name_msg student_name)
            = (name_match_ratio student_name (full_text ocr) < 0.6))
           \<and> student_name_match
                (snd (snd (verify_certificate_with_ai ext b mime student_name skill description)))
             = round2 (name_match_ratio student_name (full_text ocr)))
   \<and> (preprocess_image ext b = Inr img \<and>
       generate_caption ext img id_caption_prompt = Inr caption \<and>
       list_ex (\<lambda>k. str_in k (lower caption)) [''yes'', ''id'', ''student''] \<and>
       extract_text ext img = Inr ocr \<and> lower (full_text ocr) \<noteq> [] \<and>
       split (lower student_name) = []
       \<longrightarrow> verify_college_id_with_models ext b student_name roll_no
             = (False, id_name_msg student_name, ''''))
   \<and> (str_in ''jane smith cs101'' (lower ocr_text)
       \<longrightarrow> name_match_ratio ''Jane Smith'' ocr_text = 1)"
proof (intro conjI impI)
  assume "preprocess_image ext b = Inr img \<and>
    generate_caption ext img id_caption_prompt = Inr caption \<and>
    list_ex (\<lambda>k. str_in k (lower caption)) [''yes'', ''id'', ''student''] \<and>
    extract_text ext img = Inr ocr \<and> lower (full_text ocr) \<noteq> [] \<and>
    split (lower student_name) \<noteq> []"
  then show "(verify_college_id_with_models ext b student_name roll_no
           = (False, id_name_msg student_name, ''''))
          = (name_match_ratio student_name (full_text ocr) < 0.6)"
    by (simp add: id_after_ocr id_msgs_distinct del: list_ex_Cons_iff list_ex_Nil_iff)
next
  assume "preprocess_image ext b = Inr img \<and>
    generate_caption ext img id_caption_prompt = Inr caption \<and>
    list_ex (\<lambda>k. str_in k (lower caption)) [''yes'', ''id'', ''student''] \<and>
    extract_text ext img = Inr ocr \<and> lower (full_text ocr) \<noteq> [] \<and>
    split (lower student_name) = []"
  then show "verify_college_id_with_models ext b student_name roll_no
             = (False, id_name_msg student_name, '''')"
    by (simp add: id_after_ocr del: list_ex_Cons_iff list_ex_Nil_iff)
next
  assume h: "preprocess_image ext b = Inr img \<and>
       generate_caption ext img cert_caption_prompt = Inr caption \<and>
       list_ex (\<lambda>k. str_in k (lower caption)) [''yes'', ''certificate'', ''award''] \<and>
       extract_text ext img = Inr ocr \<and> lower (full_text ocr) \<noteq> [] \<and>
       split (lower student_name) \<noteq> []"
  let ?ratio = "name_match_ratio student_name (full_text ocr)"
  let ?R = "verify_certificate_with_ai ext b mime student_name skill description"
  let ?cs = "(scores_after_ocr ocr)\<lparr>student_name_match := round2 ?ratio\<rparr>"
  from h have body:
    "verify_certificate_try ext b mime student_name skill description =
     certificate_step4 (scores_after_ocr ocr) (lower (full_text ocr)) student_name skill
       description"
    by (simp add: cert_after_ocr del: list_ex_Cons_iff list_ex_Nil_iff)
  from h have tokens: "split (lower student_name) \<noteq> []" by simp
  have both: "((\<not> fst ?R \<and> fst (snd ?R) = cert_name_msg student_name) = (?ratio < 0.6))
      \<and> student_name_match (snd (snd ?R)) = round2 ?ratio"
  proof (cases "?ratio < 0.6")
    case True
    then show ?thesis
      by (simp add: verify_certificate_with_ai_def body step4_tokens [OF tokens])
  next
    case False
    with step5_returns [where cs = ?cs and t = "lower (full_text ocr)" and s = skill
                    and d = description and n = student_name]
    show ?thesis
      by (auto simp add: verify_certificate_with_ai_def body step4_tokens [OF tokens]
          split: sum.splits)
  qed
  from both show "(\<not> fst ?R \<and> fst (snd ?R) = cert_name_msg student_name) = (?ratio < 0.6)" ..
  from both show "student_name_match (snd (snd ?R)) = round2 ?ratio" ..
next
  assume j: "str_in ''jane smith cs101'' (lower ocr_text)"
  have s: "split (lower ''Jane Smith'') = [''jane'', ''smith'']"
    by (simp add: eval_defs)
  have "str_in ''jane'' ''jane smith cs101''" "str_in ''smith'' ''jane smith cs101''"
    by simp_all
  with j have "str_in ''jane'' (lower ocr_text)" "str_in ''smith'' (lower ocr_text)"
    by (blast intro: str_in_trans)+
  then show "name_match_ratio ''Jane Smith'' ocr_text = 1"
    by (simp add: name_match_ratio_def s)
qed


text \<open>
  The scenario of the specification, and the empty name on an ID card.
\<close>

theorem name_stage_ratio_witness:
  "name_match_ratio ''Jane Smith'' ''Jane Smith CS101'' = 1
   \<and> verify_college_id_with_models
       (example_ext (Inr ()) (Inr ''yes'') (Inr (example_ocr ''Jane Smith CS101'')))
       () ''Jane Smith'' ''CS101''
     \<noteq> (False, id_name_msg ''Jane Smith'', '''')
   \<and> fst (verify_certificate_with_ai
       (example_ext (Inr ()) (Inr ''yes'') (Inr (example_ocr ''Jane Smith CS101'')))
       () ''image/png'' ''Jane Smith'' ''Python'' None) = False
   \<and> fst (snd (verify_certificate_with_ai
       (example_ext (Inr ()) (Inr ''yes'') (Inr (example_ocr ''Jane Smith CS101'')))
       () ''image/png'' ''Jane Smith'' ''Python'' None))
     \<noteq> cert_name_msg ''Jane Smith''
   \<and> student_name_match (snd (snd (verify_certificate_with_ai
       (example_ext (Inr ()) (Inr ''yes'') (Inr (example_ocr ''Jane Smith CS101'')))
       () ''image/png'' ''Jane Smith'' ''Python'' None))) = 1
   \<and> verify_college_id_with_models
       (example_ext (Inr ()) (Inr ''yes'') (Inr (example_ocr ''Jane Smith CS101'')))
       () '''' ''CS101''
     = (False, id_name_msg '''', '''')"
proof -
  let ?E = "example_ext (Inr ()) (Inr ''yes'') (Inr (example_ocr ''Jane Smith CS101''))"
  have r: "name_match_ratio ''Jane Smith'' ''Jane Smith CS101'' = 1"
    using name_stage_ratio [where ocr_text = "''Jane Smith CS101''",
            THEN conjunct2, THEN conjunct2, THEN conjunct2]
    by (simp add: eval_defs)
  have r2: "round2 1 = 1"
    by (simp add: round2_def)
  have f: "fst (verify_certificate_with_ai ?E () ''image/png'' ''Jane Smith'' ''Python'' None)
           = False"
    by (simp add: verify_certificate_with_ai_def verify_certificate_try_def
        certificate_step4_def certificate_step5_def certificate_step6_def
        certificate_step7_def eval_defs Let_def)
  show ?thesis
    using name_stage_ratio
            [where ext = ?E and b = "()" and img = "()" and caption = "''yes''"
               and ocr = "example_ocr ''Jane Smith CS101''"
               and student_name = "''Jane Smith''" and roll_no = "''CS101''"
               and mime = "''image/png''" and skill = "''Python''" and description = None]
          name_stage_ratio
            [where ext = ?E and b = "()" and img = "()" and caption = "''yes''"
               and ocr = "example_ocr ''Jane Smith CS101''"
               and student_name = "''''" and roll_no = "''CS101''"]
          r r2 f
    by (simp add: eval_defs)
qed

text \<open>
  C3 as the specification states it fails for a name without tokens.  Against one and the
  same OCR text the quotient of the specification is below 0.6 (it is \<open>0 / 0\<close>, which HOL
  reads as 0) and ID-card verification rejects at the name stage, while certificate
  verification accepts.
\<close>

theorem empty_name_stage_disagrees:
  "name_match_ratio '''' ''Jane Smith CS101 Python'' < 0.6
   \<and> verify_college_id_with_models
       (example_ext (Inr ()) (Inr ''yes'') (Inr (example_ocr ''Jane Smith CS101 Python'')))
       () '''' ''CS101''
     = (False, id_name_msg '''', '''')
   \<and> fst (verify_certificate_with_ai
       (example_ext (Inr ()) (Inr ''yes'') (Inr (example_ocr ''Jane Smith CS101 Python'')))
       () ''image/png'' '''' ''Python'' None)"
proof (intro conjI)
  show "name_match_ratio '''' ''Jane Smith CS101 Python'' < 0.6"
    by (simp add: name_match_ratio_def eval_defs)
  show "verify_college_id_with_models
       (example_ext (Inr ()) (Inr ''yes'') (Inr (example_ocr ''Jane Smith CS101 Python'')))
       () '''' ''CS101''
     = (False, id_name_msg '''', '''')"
    by (simp add: verify_college_id_with_models_def verify_college_id_try_def eval_defs Let_def)
  show "fst (verify_certificate_with_ai
       (example_ext (Inr ()) (Inr ''yes'') (Inr (example_ocr ''Jane Smith CS101 Python'')))
       () ''image/png'' '''' ''Python'' None)"
    by (simp add: verify_certificate_with_ai_def verify_certificate_try_def
        certificate_step4_def certificate_step5_def certificate_step6_def
        certificate_step7_def eval_defs Let_def)
qed

section \<open>The roll-number stage\<close>

text \<open>
  C4.  When ID-card verification reaches the roll-number stage (image type confirmed, OCR
  text not empty, name accepted), it accepts if the cleaned roll number occurs in the
  cleaned OCR text; otherwise it accepts exactly when the share of roll-number characters
  that occur somewhere in the cleaned OCR text is at least 0.6, and a rejection is the
  roll-number rejection.
\<close>

theorem roll_number_stage:
  assumes "preprocess_image ext b = Inr img"
    and "generate_caption ext img id_caption_prompt = Inr caption"
    and "list_ex (\<lambda>k. str_in k (lower caption)) [''yes'', ''id'', ''student'']"
    and "extract_text ext img = Inr ocr"
    and "lower (full_text ocr) \<noteq> []"
    and "split (lower student_name) \<noteq> []"
    and "\<not> name_match_ratio student_name (full_text ocr) < 0.6"
  shows "(str_in (cleaned roll_no) (cleaned (full_text ocr))
          \<longrightarrow> fst (verify_college_id_with_models ext b student_name roll_no))
     \<and> (\<not> str_in (cleaned roll_no) (cleaned (full_text ocr))
        \<longrightarrow> fst (verify_college_id_with_models ext b student_name roll_no)
            = (0.6 \<le> char_overlap_ratio roll_no (full_text ocr)))
     \<and> (\<not> fst (verify_college_id_with_models ext b student_name roll_no)
        \<longrightarrow> verify_college_id_with_models ext b student_name roll_no
            = (False, id_roll_msg roll_no, ''''))
     \<and> (fst (verify_college_id_with_models ext b student_name roll_no)
        \<longrightarrow> verify_college_id_with_models ext b student_name roll_no
            = (True, ''College ID verified successfully'', strip (full_text ocr)))"
  using assms(6,7)
  by (simp add: id_after_ocr [OF assms(1-5)] not_less)

text \<open>
  Three roll numbers against the OCR text \<open>Jane Smith CS101\<close>: one that occurs once cleaned,
  one that does not occur but shares four of its five characters, one that shares none.
\<close>

theorem roll_number_stage_witness:
  "fst (verify_college_id_with_models
     (example_ext (Inr ()) (Inr ''yes'') (Inr (example_ocr ''Jane Smith CS101'')))
     () ''Jane Smith'' ''cs-101'')
   \<and> char_overlap_ratio ''CS102'' ''Jane Smith CS101'' = 4 / 5
   \<and> fst (verify_college_id_with_models
       (example_ext (Inr ()) (Inr ''yes'') (Inr (example_ocr ''Jane Smith CS101'')))
       () ''Jane Smith'' ''CS102'')
   \<and> char_overlap_ratio ''XY999'' ''Jane Smith CS101'' = 0
   \<and> verify_college_id_with_models
       (example_ext (Inr ()) (Inr ''yes'') (Inr (example_ocr ''Jane Smith CS101'')))
       () ''Jane Smith'' ''XY999''
     = (False, id_roll_msg ''XY999'', '''')"
proof -
  let ?E = "example_ext (Inr ()) (Inr ''yes'') (Inr (example_ocr ''Jane Smith CS101''))"
  have h: "preprocess_image ?E () = Inr ()"
    "generate_caption ?E () id_caption_prompt = Inr ''yes''"
    "list_ex (\<lambda>k. str_in k (lower ''yes'')) [''yes'', ''id'', ''student'']"
    "extract_text ?E () = Inr (example_ocr ''Jane Smith CS101'')"
    "lower (full_text (example_ocr ''Jane Smith CS101'')) \<noteq> []"
    "split (lower ''Jane Smith'') \<noteq> []"
    "\<not> name_match_ratio ''Jane Smith'' (full_text (example_ocr ''Jane Smith CS101'')) < 0.6"
    by (simp_all add: eval_defs name_match_ratio_def)
  have c: "cleaned ''cs-101'' = ''cs101''" "cleaned ''CS102'' = ''cs102''"
    "cleaned ''XY999'' = ''xy999''" "cleaned ''Jane Smith CS101'' = ''janesmithcs101''"
    by (simp_all add: cleaned_def eval_defs)
  have o: "char_overlap_ratio ''CS102'' ''Jane Smith CS101'' = 4 / 5"
    "char_overlap_ratio ''XY999'' ''Jane Smith CS101'' = 0"
    by (simp_all add: char_overlap_ratio_def c)
  have f: "full_text (example_ocr ''Jane Smith CS101'') = ''Jane Smith CS101''"
    by (simp add: example_ocr_def)
  have a: "fst (verify_college_id_with_models ?E () ''Jane Smith'' ''cs-101'')"
    using roll_number_stage [OF h, of "''cs-101''", THEN conjunct1]
    by (simp add: c f)
  have b: "fst (verify_college_id_with_models ?E () ''Jane Smith'' ''CS102'')"
    using roll_number_stage [OF h, of "''CS102''", THEN conjunct2, THEN conjunct1]
    by (simp add: c f o)
  have "\<not> fst (verify_college_id_with_models ?E () ''Jane Smith'' ''XY999'')"
    using roll_number_stage [OF h, of "''XY999''", THEN conjunct2, THEN conjunct1]
    by (simp add: c f o)
  then have d: "verify_college_id_with_models ?E () ''Jane Smith'' ''XY999''
                = (False, id_roll_msg ''XY999'', '''')"
    using roll_number_stage [OF h, of "''XY999''", THEN conjunct2, THEN conjunct2,
            THEN conjunct1]
    by blast
  from a b d o show ?thesis
    by blast
qed


section \<open>A name without tokens on a certificate\<close>

text \<open>
  C10.  When the expected name splits into no tokens, certificate verification never
  returns the name rejection, whatever the collaborators answer.  If the image type is
  confirmed and the OCR text is not empty, \<open>student_name_match\<close> is set to 1 and the result
  is the one Steps 5 to 7 compute from there; it carries \<open>student_name_match = 1\<close>.
\<close>

theorem empty_name_skips_name_stage:
  assumes "split (lower student_name) = []"
  shows "fst (snd (verify_certificate_with_ai ext b mime student_name skill description))
         \<noteq> cert_name_msg student_name
     \<and> (preprocess_image ext b = Inr img \<and>
        generate_caption ext img cert_caption_prompt = Inr caption \<and>
        list_ex (\<lambda>k. str_in k (lower caption)) [''yes'', ''certificate'', ''award''] \<and>
        extract_text ext img = Inr ocr \<and> lower (full_text ocr) \<noteq> []
        \<longrightarrow> certificate_step5 ((scores_after_ocr ocr)\<lparr>student_name_match := 1\<rparr>)
              (lower (full_text ocr)) skill description
            = Inr (verify_certificate_with_ai ext b mime student_name skill description)
          \<and> student_name_match
               (snd (snd (verify_certificate_with_ai ext b mime student_name skill
                            description))) = 1)"
proof (intro conjI impI)
  let ?R = "verify_certificate_with_ai ext b mime student_name skill description"
  have later: "case certificate_step4 cs t student_name skill description of
                 Inl e \<Rightarrow> True | Inr r \<Rightarrow> fst (snd r) \<noteq> cert_name_msg student_name" for cs t
    using step5_returns [where cs = "cs\<lparr>student_name_match := 1\<rparr>" and t = t and s = skill
            and d = description and n = student_name]
    by (auto simp add: step4_no_tokens [OF assms] split: sum.splits)
  have "case verify_certificate_try ext b mime student_name skill description of
          Inl e \<Rightarrow> True | Inr r \<Rightarrow> fst (snd r) \<noteq> cert_name_msg student_name"
  proof (cases "preprocess_image ext b")
    case Inl
    then show ?thesis by (simp add: verify_certificate_try_def)
  next
    case (Inr img)
    note p = this
    show ?thesis
    proof (cases "generate_caption ext img cert_caption_prompt")
      case Inl
      with p show ?thesis by (simp add: verify_certificate_try_def)
    next
      case (Inr caption)
      note c = this
      show ?thesis
      proof (cases "list_ex (\<lambda>k. str_in k (lower caption))
                      [''yes'', ''certificate'', ''award'']")
        case False
        with p c show ?thesis
          by (simp add: verify_certificate_try_def cert_msgs_distinct)
      next
        case True
        note g = this
        show ?thesis
        proof (cases "extract_text ext img")
          case Inl
          with p c g show ?thesis
            by (simp add: verify_certificate_try_def del: list_ex_Cons_iff list_ex_Nil_iff)
        next
          case (Inr ocr)
          note x = this
          show ?thesis
          proof (cases "lower (full_text ocr) = []")
            case True
            with p c g x show ?thesis
              by (simp add: verify_certificate_try_def Let_def cert_msgs_distinct
                  del: list_ex_Cons_iff list_ex_Nil_iff)
          next
            case False
            from cert_after_ocr [OF p c g x False] later show ?thesis
              by simp
          qed
        qed
      qed
    qed
  qed
  then show "fst (snd ?R) \<noteq> cert_name_msg student_name"
  proof (cases "verify_certificate_try ext b mime student_name skill description")
    case (Inl e)
    then have "?R = (False, ''Error processing certificate: '' @ e, zero_scores)"
      by (simp add: verify_certificate_with_ai_def)
    then show ?thesis
      by (simp only: fst_conv snd_conv cert_msgs_distinct not_False_eq_True)
  next
    case (Inr r)
    moreover assume "case verify_certificate_try ext b mime student_name skill description of
          Inl e \<Rightarrow> True | Inr r \<Rightarrow> fst (snd r) \<noteq> cert_name_msg student_name"
    ultimately show ?thesis
      by (simp add: verify_certificate_with_ai_def)
  qed
next
  let ?R = "verify_certificate_with_ai ext b mime student_name skill description"
  let ?cs = "(scores_after_ocr ocr)\<lparr>student_name_match := 1\<rparr>"
  assume h: "preprocess_image ext b = Inr img \<and>
        generate_caption ext img cert_caption_prompt = Inr caption \<and>
        list_ex (\<lambda>k. str_in k (lower caption)) [''yes'', ''certificate'', ''award''] \<and>
        extract_text ext img = Inr ocr \<and> lower (full_text ocr) \<noteq> []"
  then have body: "verify_certificate_try ext b mime student_name skill description =
      certificate_step5 ?cs (lower (full_text ocr)) skill description"
    by (simp add: cert_after_ocr step4_no_tokens [OF assms]
        del: list_ex_Cons_iff list_ex_Nil_iff)
  have both: "certificate_step5 ?cs (lower (full_text ocr)) skill description = Inr ?R
      \<and> student_name_match (snd (snd ?R)) = 1"
    using step5_returns [where cs = ?cs and t = "lower (full_text ocr)" and s = skill
            and d = description and n = student_name]
    by (auto simp add: verify_certificate_with_ai_def body split: sum.splits)
  from both show "certificate_step5 ?cs (lower (full_text ocr)) skill description = Inr ?R" ..
  from both show "student_name_match (snd (snd ?R)) = 1" ..
qed

text \<open>
  A name of three spaces on a certificate that shows the skill.
\<close>

theorem empty_name_skips_name_stage_witness:
  "split (lower ''   '') = []
   \<and> fst (snd (verify_certificate_with_ai
       (example_ext (Inr ()) (Inr ''yes'') (Inr (example_ocr ''Jane Smith Python'')))
       () ''image/png'' ''   '' ''Python'' None))
     \<noteq> cert_name_msg ''   ''
   \<and> student_name_match (snd (snd (verify_certificate_with_ai
       (example_ext (Inr ()) (Inr ''yes'') (Inr (example_ocr ''Jane Smith Python'')))
       () ''image/png'' ''   '' ''Python'' None))) = 1
   \<and> fst (verify_certificate_with_ai
       (example_ext (Inr ()) (Inr ''yes'') (Inr (example_ocr ''Jane Smith Python'')))
       () ''image/png'' ''   '' ''Python'' None)"
proof -
  let ?E = "example_ext (Inr ()) (Inr ''yes'') (Inr (example_ocr ''Jane Smith Python''))"
  have s: "split (lower ''   '') = []"
    by (simp add: eval_defs)
  have h: "preprocess_image ?E () = Inr () \<and>
        generate_caption ?E () cert_caption_prompt = Inr ''yes'' \<and>
        list_ex (\<lambda>k. str_in k (lower ''yes'')) [''yes'', ''certificate'', ''award''] \<and>
        extract_text ?E () = Inr (example_ocr ''Jane Smith Python'') \<and>
        lower (full_text (example_ocr ''Jane Smith Python'')) \<noteq> []"
    by (simp add: eval_defs)
  note t = empty_name_skips_name_stage [OF s, where ext = ?E and b = "()" and img = "()"
      and caption = "''yes''" and ocr = "example_ocr ''Jane Smith Python''"
      and mime = "''image/png''" and skill = "''Python''" and description = None]
  have acc: "fst (verify_certificate_with_ai ?E () ''image/png'' ''   '' ''Python'' None)"
    by (simp add: verify_certificate_with_ai_def verify_certificate_try_def
        certificate_step4_def certificate_step5_def certificate_step6_def
        certificate_step7_def eval_defs Let_def)
  from t h s acc show ?thesis
    by blast
qed


section \<open>Facts about the store\<close>

lemma update_one_from_unchanged:
  "(\<And>d. flt d \<Longrightarrow> upd d = d) \<Longrightarrow>
   update_one_from seen flt upd ds =
     Inr (seen @ ds,
          \<lparr>matched_count = (if list_ex flt ds then 1 else 0), modified_count = 0\<rparr>)"
  by (induction ds arbitrary: seen) (simp_all add: changed_key_conflict_def)

lemma update_one_from_first:
  "find flt ds = Some d \<Longrightarrow> upd d = d \<Longrightarrow>
   update_one_from seen flt upd ds =
     Inr (seen @ ds, \<lparr>matched_count = 1, modified_count = 0\<rparr>)"
  by (induction ds arbitrary: seen) (auto simp add: changed_key_conflict_def split: if_splits)

lemma update_one_from_none:
  "find flt ds = None \<Longrightarrow>
   update_one_from seen flt upd ds =
     Inr (seen @ ds, \<lparr>matched_count = 0, modified_count = 0\<rparr>)"
  by (induction ds arbitrary: seen) (auto split: if_splits)

lemma update_one_from_pointwise:
  "update_one_from seen flt upd ds = Inr (ds', r) \<Longrightarrow>
   \<exists>rest. ds' = seen @ rest \<and> list_all2 (\<lambda>old new. new = old \<or> new = upd old) ds rest"
proof (induction ds arbitrary: seen)
  case Nil
  then show ?case by simp
next
  case (Cons d ds)
  show ?case
  proof (cases "flt d")
    case True
    with Cons.prems show ?thesis
      by (auto simp add: list_all2_same split: option.splits)
  next
    case False
    with Cons.prems have "update_one_from (seen @ [d]) flt upd ds = Inr (ds', r)"
      by simp
    from Cons.IH [OF this] show ?thesis
      by auto
  qed
qed


section \<open>Project links\<close>

text \<open>
  C5.  A link whose lower case contains neither \<open>github.com\<close> nor \<open>gitlab.com\<close>, the empty
  link included, is refused with the literal message before the store is read: the store
  comes back as it was, so no project is written, and the endpoint answers 400 with that
  message.
\<close>

theorem invalid_link_rejected:
  assumes "\<not> str_in ''github.com'' (lower github_link)"
    and "\<not> str_in ''gitlab.com'' (lower github_link)"
  shows "add_projects roll_no project_name github_link db
         = Inr (Text ''Invalid repository link. Must be from GitHub or GitLab'', db)
     \<and> add_project roll_no project_name github_link db
       = Inr (HTTPException 400 ''Invalid repository link. Must be from GitHub or GitLab'', db)"
  using assms by (simp add: add_project_def add_projects_def invalid_link_msg_def)

text \<open>
  A Bitbucket link and the empty link.
\<close>

theorem invalid_link_rejected_witness:
  "add_projects ''CS101'' ''Compiler'' ''https://bitbucket.org/jane/compiler'' example_db
   = Inr (Text ''Invalid repository link. Must be from GitHub or GitLab'', example_db)
   \<and> add_project ''CS101'' ''Compiler'' ''https://bitbucket.org/jane/compiler'' example_db
     = Inr (HTTPException 400 ''Invalid repository link. Must be from GitHub or GitLab'',
            example_db)
   \<and> add_projects ''CS101'' ''Compiler'' '''' example_db
     = Inr (Text ''Invalid repository link. Must be from GitHub or GitLab'', example_db)
   \<and> add_project ''CS101'' ''Compiler'' '''' example_db
     = Inr (HTTPException 400 ''Invalid repository link. Must be from GitHub or GitLab'',
            example_db)"
proof -
  have h: "\<not> str_in ''github.com'' (lower ''https://bitbucket.org/jane/compiler'')"
    "\<not> str_in ''gitlab.com'' (lower ''https://bitbucket.org/jane/compiler'')"
    by (simp_all add: lower_def lower_char_def isupper_def)
  have e: "\<not> str_in ''github.com'' (lower '''')" "\<not> str_in ''gitlab.com'' (lower '''')"
    by (simp_all add: lower_def)
  from invalid_link_rejected [OF h, of "''CS101''" "''Compiler''" example_db]
    invalid_link_rejected [OF e, of "''CS101''" "''Compiler''" example_db]
  show ?thesis
    by blast
qed

section \<open>Deleting a comment\<close>

text \<open>
  C8.  When no comment of the student with the given roll number carries the timestamp,
  \<open>delete_comment\<close> answers \<open>Comment not found\<close> and leaves the store as it was; the
  student's comments are the same list, of the same length.
\<close>

theorem delete_missing_comment:
  assumes "find_one (\<lambda>d. st_roll_no d = Some roll_no) (students_collection db) = Some student"
    and "\<forall>c \<in> set (comments_of student). cm_timestamp c \<noteq> timestamp"
  shows "delete_comment roll_no timestamp db
         = Inr (\<lparr>success = False, message = ''Comment not found''\<rparr>, db)"
proof -
  let ?upd = "\<lambda>d. case st_comments d of
                     None \<Rightarrow> d
                   | Some cs \<Rightarrow>
                       d\<lparr>st_comments := Some (filter (\<lambda>c. cm_timestamp c \<noteq> timestamp) cs)\<rparr>"
  from assms(2) have "?upd student = student"
    by (cases "st_comments student") (simp_all add: comments_of_def)
  with assms(1) have
    "update_one_from [] (\<lambda>d. st_roll_no d = Some roll_no) ?upd (students_collection db)
     = Inr ([] @ students_collection db, \<lparr>matched_count = 1, modified_count = 0\<rparr>)"
    unfolding find_one_def by (rule update_one_from_first)
  then show ?thesis
    by (simp add: delete_comment_def update_one_def)
qed

text \<open>
  The student \<open>CS101\<close> has one comment; a timestamp of another day is not found.
\<close>

theorem delete_missing_comment_witness:
  "find_one (\<lambda>d. st_roll_no d = Some ''CS101'') (students_collection example_db)
   = Some example_student
   \<and> length (comments_of example_student) = 1
   \<and> delete_comment ''CS101'' ''2025-02-01T08:00:00.000000'' example_db
     = Inr (\<lparr>success = False, message = ''Comment not found''\<rparr>, example_db)"
proof -
  have f: "find_one (\<lambda>d. st_roll_no d = Some ''CS101'') (students_collection example_db)
           = Some example_student"
    by (simp add: find_one_def example_db_def example_student_def)
  have c: "comments_of example_student
           = [\<lparr>cm_author = ''admin'', cm_author_type = ''admin'',
               cm_text = ''Great progress on this project!'',
               cm_timestamp = ''2025-01-15T10:30:00.000000''\<rparr>]"
    by (simp add: comments_of_def example_student_def)
  have t: "\<forall>c \<in> set (comments_of example_student).
             cm_timestamp c \<noteq> ''2025-02-01T08:00:00.000000''"
    by (simp add: c)
  from delete_missing_comment [OF f t] f c show ?thesis
    by simp
qed

section \<open>Partial updates\<close>

text \<open>
  C9.  Whenever \<open>update_student\<close> returns, the store it leaves has the documents of the old
  one in the same places, and in each of them every field that the payload does not supply
  (and every key that is not in the payload's schema) has its previous value.  With a
  payload that supplies nothing, the store is not touched and the result is the student's
  current record.
\<close>

theorem update_student_partial:
  "(update_student roll_no u db = Inr (result, db1)
    \<longrightarrow> list_all2 (unsupplied_kept u) (students_collection db) (students_collection db1) \<and>
        colleges_collection db1 = colleges_collection db)
   \<and> (update_data_empty u
       \<longrightarrow> update_student roll_no u db = Inr (get_student_by_roll_no roll_no db, db))"
proof (intro conjI impI)
  assume "update_data_empty u"
  then show "update_student roll_no u db = Inr (get_student_by_roll_no roll_no db, db)"
    by (simp add: update_student_def)
next
  assume r: "update_student roll_no u db = Inr (result, db1)"
  have kept: "unsupplied_kept u d d" "unsupplied_kept u d (set_update_data u d)" for d
    by (simp_all add: unsupplied_kept_def set_update_data_def supplied_def)
  have w: "list_all2 (unsupplied_kept u) (students_collection db) (students_collection db1)
           \<and> colleges_collection db1 = colleges_collection db"
  proof (cases "update_data_empty u")
    case True
    with r have "db1 = db" by (simp add: update_student_def)
    then show ?thesis by (simp add: list_all2_same kept)
  next
    case False
    with r obtain ds res where
      u1: "update_one_from [] (\<lambda>d. st_roll_no d = Some roll_no) (set_update_data u)
             (students_collection db) = Inr (ds, res)"
      and d1: "db1 = db\<lparr>students_collection := ds\<rparr>"
      by (auto simp add: update_student_def update_one_def split: sum.splits if_splits)
    from update_one_from_pointwise [OF u1]
    have "list_all2 (\<lambda>old new. new = old \<or> new = set_update_data u old)
            (students_collection db) ds"
      by simp
    then have "list_all2 (unsupplied_kept u) (students_collection db) ds"
      by (rule list_all2_mono) (auto simp add: kept)
    with d1 show ?thesis by simp
  qed
  from w show "list_all2 (unsupplied_kept u) (students_collection db) (students_collection db1)" ..
  from w show "colleges_collection db1 = colleges_collection db" ..
qed


text \<open>
  A payload that supplies the name only, and one that supplies nothing.
\<close>

theorem update_student_partial_witness:
  "update_student ''CS101'' name_only_update example_db
   = Inr (Some (example_student\<lparr>st_name := Some ''Jane A. Smith''\<rparr>),
          example_db\<lparr>students_collection :=
            [example_student\<lparr>st_name := Some ''Jane A. Smith''\<rparr>]\<rparr>)
   \<and> list_all2 (unsupplied_kept name_only_update) [example_student]
       [example_student\<lparr>st_name := Some ''Jane A. Smith''\<rparr>]
   \<and> update_data_empty empty_update
   \<and> update_student ''CS101'' empty_update example_db = Inr (Some example_student, example_db)"
proof -
  let ?s = "example_student\<lparr>st_name := Some ''Jane A. Smith''\<rparr>"
  let ?db = "example_db\<lparr>students_collection := [?s]\<rparr>"
  have ev: "update_student ''CS101'' name_only_update example_db = Inr (Some ?s, ?db)"
    by (simp add: update_student_def update_one_def update_data_empty_def name_only_update_def
        set_update_data_def supplied_def changed_key_conflict_def get_student_by_roll_no_def
        find_one_def example_db_def example_student_def)
  have em: "update_data_empty empty_update"
    by (simp add: update_data_empty_def empty_update_def)
  have g: "get_student_by_roll_no ''CS101'' example_db = Some example_student"
    by (simp add: get_student_by_roll_no_def find_one_def example_db_def example_student_def)
  from update_student_partial [where roll_no = "''CS101''" and u = name_only_update
      and db = example_db and result = "Some ?s" and ?db1.0 = ?db, THEN conjunct1] ev
  have k: "list_all2 (unsupplied_kept name_only_update) [example_student] [?s]"
    by (simp add: example_db_def)
  from update_student_partial [where roll_no = "''CS101''" and u = empty_update
      and db = example_db, THEN conjunct2] em g
  have "update_student ''CS101'' empty_update example_db = Inr (Some example_student, example_db)"
    by simp
  with ev k em show ?thesis
    by blast
qed

section \<open>Verifying a skill twice\<close>

text \<open>
  C1 at a concrete store.  Student \<open>CS101\<close> has the unverified skill \<open>Python\<close>.  The first
  call verifies it and succeeds.  The second call finds the skill, changes nothing, reads
  \<open>modified_count = 0\<close> and answers that the skill was not found, which the endpoint turns
  into a 404, although the skill is there and verified.
\<close>

theorem verify_skill_second_call_not_found:
  "verify_student_skill ''CS101'' ''Python'' example_db
   = Inr (\<lparr>success = True,
           message = ''Skill '' @ quoted ''Python'' @ '' verified successfully''\<rparr>,
          example_db_verified)
   \<and> list_ex (\<lambda>sk. sk_name sk = ''Python'' \<and> sk_verified sk)
       (concat (map st_skills (students_collection example_db_verified)))
   \<and> verify_student_skill ''CS101'' ''Python'' example_db_verified
     = Inr (\<lparr>success = False, message = ''Skill '' @ quoted ''Python'' @ '' not found''\<rparr>,
            example_db_verified)
   \<and> verify_skill ''CS101'' ''Python'' example_db_verified
     = Inr (HTTPException 404 (''Skill '' @ quoted ''Python'' @ '' not found''),
            example_db_verified)"
proof -
  have first: "verify_student_skill ''CS101'' ''Python'' example_db
     = Inr (\<lparr>success = True,
             message = ''Skill '' @ quoted ''Python'' @ '' verified successfully''\<rparr>,
            example_db_verified)"
    by (simp add: verify_student_skill_def update_one_def find_one_def
        changed_key_conflict_def example_db_verified_def example_db_def example_student_def)
  have second: "verify_student_skill ''CS101'' ''Python'' example_db_verified
     = Inr (\<lparr>success = False, message = ''Skill '' @ quoted ''Python'' @ '' not found''\<rparr>,
            example_db_verified)"
    by (simp add: verify_student_skill_def update_one_def find_one_def
        changed_key_conflict_def example_db_verified_def example_db_def example_student_def)
  have there: "list_ex (\<lambda>sk. sk_name sk = ''Python'' \<and> sk_verified sk)
       (concat (map st_skills (students_collection example_db_verified)))"
    by (simp add: example_db_verified_def example_db_def example_student_def)
  from second have "verify_skill ''CS101'' ''Python'' example_db_verified
     = Inr (HTTPException 404 (''Skill '' @ quoted ''Python'' @ '' not found''),
            example_db_verified)"
    by (simp add: verify_skill_def)
  with first second there show ?thesis
    by blast
qed

section \<open>Duplicate keys\<close>

text \<open>
  C7 at a concrete store.  A second college registers with the contact email of the first,
  \<open>username@college.edu\<close>, and a new name, id and phone.  The store refuses the key of the
  index \<open>contact_email\<close>; its message quotes the email, which contains \<open>name\<close>, so the
  handler's first test succeeds and the error says that the college name already exists.
\<close>

theorem duplicate_email_reported_as_name:
  "insert_one_college
     \<lparr>co_id = 0, co_name = ''NIT Raipur'', co_address = ''GE Road, Raipur'',
      co_contact_email = ''username@college.edu'', co_contact_phone = ''9876543210'',
      co_college_id = ''COLL002'', co_admin_password = ''securePassword123''\<rparr> example_db
   = Inl (DuplicateKeyError
       (dup_key_errmsg ''colleges'' ''contact_email'' (Some ''username@college.edu'')))
   \<and> \<not> list_ex (\<lambda>d. co_name d = ''NIT Raipur'') (colleges_collection example_db)
   \<and> create_college (\<lambda>password. password) second_college example_db
     = Inl (ValueError (''College name '' @ quoted ''NIT Raipur'' @ '' already exists''))"
  by (simp add: create_college_def insert_one_college_def college_key_conflict_def
      create_college_duplicate_def dup_key_errmsg_def second_college_def example_db_def
      example_college_def)

end
